theory Spec2Isabelle
  imports Main "HOL-Library.Word"
begin

section \<open>Machine types of the wrapper\<close>

text \<open>
  \<^verbatim>\<open>Cajita_HypreStructuredSolver.hpp\<close> is glue between Cajita arrays and the external
  HYPRE library. The C++ integer types are modelled with their widths: \<^verbatim>\<open>int\<close>,
  \<^verbatim>\<open>unsigned\<close> and HYPRE's \<^verbatim>\<open>HYPRE_Int\<close> (an \<^verbatim>\<open>int\<close> in HYPRE's default
  configuration) are 32-bit words, \<^verbatim>\<open>long\<close> is a 64-bit word. Signed readings are
  taken with \<open>sint\<close>, unsigned ones with \<open>unat\<close>.
\<close>

type_synonym c_int = "32 word"
type_synonym c_unsigned = "32 word"
type_synonym c_long = "64 word"
type_synonym HYPRE_Int = "32 word"

text \<open>Opaque HYPRE handles and the MPI communicator are pointers; \<open>nullptr\<close> is 0.\<close>

type_synonym handle = nat
type_synonym MPI_Comm = nat

definition nullptr :: handle where
  "nullptr = 0"

text \<open>The two exception classes the header throws, with their messages.\<close>

datatype exn = logic_error string | runtime_error string

text \<open>
  The seven concrete classes derived from \<^verbatim>\<open>HypreStructuredSolver\<close>:
  \<^verbatim>\<open>HypreStructPCG\<close>, \<^verbatim>\<open>HypreStructGMRES\<close>, ..., \<^verbatim>\<open>HypreStructDiagonal\<close>.
\<close>

datatype solver_class = PCG | GMRES | BiCGSTAB | PFMG | SMG | Jacobi | Diagonal

text \<open>
  A value of \<^verbatim>\<open>HYPRE_PtrToStructSolverFcn\<close>: the setup or the solve entry point of
  one HYPRE solver. For \<open>Diagonal\<close> these stand for
  \<^verbatim>\<open>HYPRE_StructDiagScaleSetup\<close> and \<^verbatim>\<open>HYPRE_StructDiagScale\<close>.
\<close>

datatype HYPRE_PtrToStructSolverFcn = SetupFcn solver_class | SolveFcn solver_class

section \<open>The external HYPRE library\<close>

text \<open>
  HYPRE is not part of the repository. Every call the wrapper makes is recorded, with
  its arguments, in a trace; what HYPRE answers (the return code, the handle written
  through an out-parameter, the values written into a caller's buffer, the text of an
  error) is given by a \<open>hypre_lib\<close>, an arbitrary function of the calls made so far.
  The per-solver entry points (\<^verbatim>\<open>HYPRE_StructPCGCreate\<close>,
  \<^verbatim>\<open>HYPRE_StructGMRESCreate\<close>, ...) are one constructor tagged with the solver.
\<close>

datatype 'h hypre_call =
    HYPRE_StructGridCreate MPI_Comm HYPRE_Int
  | HYPRE_StructGridSetExtents handle "HYPRE_Int list" "HYPRE_Int list"
  | HYPRE_StructGridSetPeriodic handle "HYPRE_Int list"
  | HYPRE_StructGridAssemble handle
  | HYPRE_StructGridDestroy handle
  | HYPRE_StructVectorCreate MPI_Comm handle
  | HYPRE_StructVectorInitialize handle
  | HYPRE_StructVectorSetBoxValues handle "HYPRE_Int list" "HYPRE_Int list" "'h list"
  | HYPRE_StructVectorGetBoxValues handle "HYPRE_Int list" "HYPRE_Int list"
  | HYPRE_StructVectorAssemble handle
  | HYPRE_StructVectorDestroy handle
  | HYPRE_StructStencilCreate HYPRE_Int HYPRE_Int
  | HYPRE_StructStencilSetElement handle HYPRE_Int "HYPRE_Int list"
  | HYPRE_StructStencilDestroy handle
  | HYPRE_StructMatrixCreate MPI_Comm handle handle
  | HYPRE_StructMatrixSetSymmetric handle HYPRE_Int
  | HYPRE_StructMatrixInitialize handle
  | HYPRE_StructMatrixSetBoxValues handle "HYPRE_Int list" "HYPRE_Int list"
      HYPRE_Int "HYPRE_Int list" "'h list"
  | HYPRE_StructMatrixAssemble handle
  | HYPRE_StructMatrixDestroy handle
  | HYPRE_StructCreate solver_class MPI_Comm
  | HYPRE_StructPCGSetTwoNorm handle HYPRE_Int
  | HYPRE_StructSetZeroGuess solver_class handle
  | HYPRE_StructSetPrecond solver_class handle
      HYPRE_PtrToStructSolverFcn HYPRE_PtrToStructSolverFcn handle
  | HYPRE_StructSetup solver_class handle handle handle handle
  | HYPRE_StructSolve solver_class handle handle handle handle
  | HYPRE_DescribeError c_int
  | HYPRE_ClearError c_int

record 'h hypre_lib =
  return_code :: "'h hypre_call list \<Rightarrow> HYPRE_Int"
  out_handle :: "'h hypre_call list \<Rightarrow> handle"
  out_values :: "'h hypre_call list \<Rightarrow> 'h list"
  error_msg :: "'h hypre_call list \<Rightarrow> string"

section \<open>Cajita index spaces and array layouts\<close>

text \<open>
  Modelled from the spec: \<^verbatim>\<open>Cajita::IndexSpace\<close> (\<^verbatim>\<open>Cajita_IndexSpace.hpp\<close>) is not among
  the sources. The spec names "index-space reordering" only, so an index space is what
  the solver reads from it: a minimum and a maximum per dimension, the maximum being a
  past-the-end bound, and the extent their difference.
\<close>

record index_space =
  min_idx :: "nat \<Rightarrow> c_long"
  max_idx :: "nat \<Rightarrow> c_long"

definition extent :: "index_space \<Rightarrow> nat \<Rightarrow> c_long" where
  "extent space d = max_idx space d - min_idx space d"

text \<open>
  What the solver reads from an \<^verbatim>\<open>ArrayLayout\<close> (\<^verbatim>\<open>Cajita_Array.hpp\<close>, not among the
  sources), taken as given: the number of spatial dimensions, the communicator of the
  global grid, the owned index space in global and in local indices, the periodicity
  and the global number of entities (of the layout's entity type) per dimension, and
  the degrees of freedom per entity.
\<close>

record array_layout =
  num_space_dim :: nat
  grid_comm :: MPI_Comm
  indexSpace_Own_Global :: index_space
  indexSpace_Own_Local :: index_space
  isPeriodic :: "nat \<Rightarrow> bool"
  globalNumEntity :: "nat \<Rightarrow> c_int"
  dofsPerEntity :: c_int

section \<open>The solver object and the state it runs in\<close>

text \<open>
  The data members of \<^verbatim>\<open>HypreStructuredSolver\<close> (\<open>m_comm\<close> for \<^verbatim>\<open>_comm\<close> and so
  on), the dynamic class of the object, and the \<^verbatim>\<open>_solver\<close> member of the derived
  class. A \<^verbatim>\<open>shared_ptr\<close> to a solver is the address of its pointee, \<open>None\<close> when
  empty.
\<close>

record solver =
  dyn_class :: solver_class
  m_comm :: MPI_Comm
  m_is_preconditioner :: bool
  m_grid :: handle
  m_lower :: "HYPRE_Int list"
  m_upper :: "HYPRE_Int list"
  m_stencil :: handle
  m_stencil_size :: c_unsigned
  m_A :: handle
  m_b :: handle
  m_x :: handle
  m_preconditioner :: "nat option"
  m_solver :: handle

text \<open>
  A method runs on a state: the object it is called on, the trace of HYPRE calls made
  so far, and the memory holding the arrays (an allocation maps a multi-index to a
  value; the addresses from \<open>next_addr\<close> on are free).
\<close>

record ('v, 'h) state =
  this :: solver
  trace :: "'h hypre_call list"
  mem :: "nat \<Rightarrow> int list \<Rightarrow> 'v"
  next_addr :: nat

text \<open>A statement either completes or throws; either way it leaves a state behind.\<close>

type_synonym ('v, 'h) stmt = "('v, 'h) state \<Rightarrow> exn option \<times> ('v, 'h) state"

fun run :: "('v, 'h) stmt list \<Rightarrow> ('v, 'h) stmt" where
  "run [] w = (None, w)"
| "run (f # fs) w = (case f w of (None, w') \<Rightarrow> run fs w' | (Some e, w') \<Rightarrow> (Some e, w'))"

definition throw :: "exn \<Rightarrow> ('v, 'h) stmt" where
  "throw e w = (Some e, w)"

definition assign :: "(solver \<Rightarrow> solver) \<Rightarrow> ('v, 'h) stmt" where
  "assign f w = (None, w\<lparr>this := f (this w)\<rparr>)"

definition cond :: "(solver \<Rightarrow> bool) \<Rightarrow> ('v, 'h) stmt \<Rightarrow> ('v, 'h) stmt" where
  "cond c f w = (if c (this w) then f w else (None, w))"

text \<open>
  Stack unwinding out of a derived constructor: when the body throws, the destructor
  of the finished base-class subobject runs before the exception leaves.
\<close>

definition unwinding :: "('v, 'h) stmt \<Rightarrow> ('v, 'h) stmt \<Rightarrow> ('v, 'h) stmt" where
  "unwinding body dtor w =
     (case body w of (None, w') \<Rightarrow> (None, w') | (Some e, w') \<Rightarrow> (Some e, snd (dtor w')))"

section \<open>Calling HYPRE and checking its return code\<close>

text \<open>Decimal output of an \<^verbatim>\<open>int\<close>, as \<^verbatim>\<open>operator<<\<close> prints it.\<close>

fun show_nat :: "nat \<Rightarrow> string" where
  "show_nat n =
     (if n < 10 then [char_of (48 + n)]
      else show_nat (n div 10) @ [char_of (48 + n mod 10)])"

definition show_int :: "int \<Rightarrow> string" where
  "show_int i = (if i < 0 then CHR ''-'' # show_nat (nat (- i)) else show_nat (nat i))"

text \<open>
  One HYPRE call: it is appended to the trace, and the library's return code for the
  trace so far is handed back.
\<close>

definition hypre :: "'h hypre_lib \<Rightarrow> 'h hypre_call \<Rightarrow> ('v, 'h) state \<Rightarrow> HYPRE_Int \<times> ('v, 'h) state" where
  "hypre lib c w = (return_code lib (trace w @ [c]), w\<lparr>trace := trace w @ [c]\<rparr>)"

text \<open>
  \<^verbatim>\<open>checkHypreError( const int error )\<close>: for \<^verbatim>\<open>error > 0\<close> it asks HYPRE for the
  description, clears the error and throws \<^verbatim>\<open>std::runtime_error\<close>; otherwise it
  does nothing.
\<close>

definition checkHypreError :: "'h hypre_lib \<Rightarrow> c_int \<Rightarrow> ('v, 'h) stmt" where
  "checkHypreError lib error w =
     (if 0 < sint error then
        let w1 = snd (hypre lib (HYPRE_DescribeError error) w);
            msg = error_msg lib (trace w1);
            out = ''HYPRE structured solver error: '' @ show_int (sint error) @ '' '' @ msg;
            w2 = snd (hypre lib (HYPRE_ClearError error) w1)
        in (Some (runtime_error out), w2)
      else (None, w))"

text \<open>
  The three shapes in which the header calls HYPRE. \<open>checked\<close> is
  \<^verbatim>\<open>auto error = HYPRE_...( ... ); checkHypreError( error );\<close>. \<open>checked_new\<close> is the
  same for a call that writes a new handle through an out-parameter into a member.
  \<open>unchecked_call\<close> is a call whose return code the header drops.
\<close>

definition checked :: "'h hypre_lib \<Rightarrow> (solver \<Rightarrow> 'h hypre_call) \<Rightarrow> ('v, 'h) stmt" where
  "checked lib c w = (case hypre lib (c (this w)) w of (error, w') \<Rightarrow> checkHypreError lib error w')"

definition checked_new ::
  "'h hypre_lib \<Rightarrow> (solver \<Rightarrow> 'h hypre_call) \<Rightarrow> (handle \<Rightarrow> solver \<Rightarrow> solver) \<Rightarrow> ('v, 'h) stmt" where
  "checked_new lib c store w =
     (case hypre lib (c (this w)) w of
        (error, w') \<Rightarrow>
          checkHypreError lib error (w'\<lparr>this := store (out_handle lib (trace w')) (this w')\<rparr>))"

definition unchecked_call :: "'h hypre_lib \<Rightarrow> (solver \<Rightarrow> 'h hypre_call) \<Rightarrow> ('v, 'h) stmt" where
  "unchecked_call lib c w = (None, snd (hypre lib (c (this w)) w))"

section \<open>Construction and destruction of the base class\<close>

text \<open>
  The two loops of the constructor. The first fills \<^verbatim>\<open>_lower\<close> and \<^verbatim>\<open>_upper\<close> (already
  resized to the number of dimensions) slot by slot; the second fills the local array
  \<^verbatim>\<open>periodic\<close>, writing slot \<^verbatim>\<open>num_space_dim - 1 - d\<close> in step \<open>d\<close>.
  \<^verbatim>\<open>static_cast<HYPRE_Int>\<close> of a \<^verbatim>\<open>long\<close> keeps the low 32 bits.
\<close>

definition set_extents_loop :: "index_space \<Rightarrow> nat \<Rightarrow> solver \<Rightarrow> solver" where
  "set_extents_loop global_space n s =
     fold (\<lambda>d s. s\<lparr>m_lower := (m_lower s)[d := scast (min_idx global_space (n - d - 1))],
                    m_upper := (m_upper s)[d := scast (max_idx global_space (n - d - 1) - 1)]\<rparr>)
          [0..<n] s"

definition periodic_loop :: "array_layout \<Rightarrow> HYPRE_Int list \<Rightarrow> HYPRE_Int list" where
  "periodic_loop layout periodic =
     fold (\<lambda>d p. p[num_space_dim layout - 1 - d :=
                     (if isPeriodic layout d then globalNumEntity layout d else 0)])
          [0..<num_space_dim layout] periodic"

text \<open>
  The zero-filled host buffer \<^verbatim>\<open>vector_values\<close> over the extents of the owned global
  space, as the flat array handed to HYPRE.
\<close>

definition zero_values :: "index_space \<Rightarrow> nat \<Rightarrow> 'h::zero list" where
  "zero_values global_space n =
     replicate (prod_list (map (\<lambda>d. unat (extent global_space d)) [0..<n])) 0"

text \<open>
  \<^verbatim>\<open>HypreStructuredSolver( layout, is_preconditioner )\<close>. The members \<^verbatim>\<open>_comm\<close> and
  \<^verbatim>\<open>_is_preconditioner\<close> are initialised, the vectors and the shared pointer start
  empty, and every other member keeps whatever the storage held. The HYPRE grid and
  the two vectors are made only when the object is not a preconditioner. The local
  array \<^verbatim>\<open>periodic\<close> starts uninitialised; the loop assigns each of its slots.
\<close>

definition HypreStructuredSolver :: "'h::zero hypre_lib \<Rightarrow> array_layout \<Rightarrow> bool \<Rightarrow> ('v, 'h) stmt" where
  "HypreStructuredSolver lib layout is_preconditioner =
     (let n = num_space_dim layout;
          global_space = indexSpace_Own_Global layout
      in run
        [assign (\<lambda>s. s\<lparr>m_comm := grid_comm layout, m_is_preconditioner := is_preconditioner,
                        m_lower := [], m_upper := [], m_preconditioner := None\<rparr>),
         cond (\<lambda>s. \<not> m_is_preconditioner s) (run
          [checked_new lib (\<lambda>s. HYPRE_StructGridCreate (m_comm s) (of_nat n)) (\<lambda>h s. s\<lparr>m_grid := h\<rparr>),
           assign (\<lambda>s. s\<lparr>m_lower := replicate n 0, m_upper := replicate n 0\<rparr>),
           assign (set_extents_loop global_space n),
           checked lib (\<lambda>s. HYPRE_StructGridSetExtents (m_grid s) (m_lower s) (m_upper s)),
           checked lib (\<lambda>s. HYPRE_StructGridSetPeriodic (m_grid s)
                               (periodic_loop layout (replicate n 0))),
           checked lib (\<lambda>s. HYPRE_StructGridAssemble (m_grid s)),
           checked_new lib (\<lambda>s. HYPRE_StructVectorCreate (m_comm s) (m_grid s)) (\<lambda>h s. s\<lparr>m_b := h\<rparr>),
           checked lib (\<lambda>s. HYPRE_StructVectorInitialize (m_b s)),
           checked lib (\<lambda>s. HYPRE_StructVectorSetBoxValues (m_b s) (m_lower s) (m_upper s)
                               (zero_values global_space n)),
           checked lib (\<lambda>s. HYPRE_StructVectorAssemble (m_b s)),
           checked_new lib (\<lambda>s. HYPRE_StructVectorCreate (m_comm s) (m_grid s)) (\<lambda>h s. s\<lparr>m_x := h\<rparr>),
           checked lib (\<lambda>s. HYPRE_StructVectorInitialize (m_x s)),
           checked lib (\<lambda>s. HYPRE_StructVectorSetBoxValues (m_x s) (m_lower s) (m_upper s)
                               (zero_values global_space n)),
           checked lib (\<lambda>s. HYPRE_StructVectorAssemble (m_x s))])])"

text \<open>\<^verbatim>\<open>~HypreStructuredSolver()\<close>: the five destroy calls, return codes dropped.\<close>

definition destroy_HypreStructuredSolver :: "'h hypre_lib \<Rightarrow> ('v, 'h) stmt" where
  "destroy_HypreStructuredSolver lib =
     cond (\<lambda>s. \<not> m_is_preconditioner s) (run
       [unchecked_call lib (\<lambda>s. HYPRE_StructVectorDestroy (m_x s)),
        unchecked_call lib (\<lambda>s. HYPRE_StructVectorDestroy (m_b s)),
        unchecked_call lib (\<lambda>s. HYPRE_StructMatrixDestroy (m_A s)),
        unchecked_call lib (\<lambda>s. HYPRE_StructStencilDestroy (m_stencil s)),
        unchecked_call lib (\<lambda>s. HYPRE_StructGridDestroy (m_grid s))])"

definition isPreconditioner :: "solver \<Rightarrow> bool" where
  "isPreconditioner s = m_is_preconditioner s"

section \<open>The derived classes\<close>

text \<open>
  Each constructor runs the base constructor and then its own body; the body is what
  the header writes, in its order. PCG, GMRES and BiCGSTAB refuse to be
  preconditioners, the diagonal scaling refuses to be anything else.
\<close>

definition HypreStructPCG :: "'h::zero hypre_lib \<Rightarrow> array_layout \<Rightarrow> bool \<Rightarrow> ('v, 'h) stmt" where
  "HypreStructPCG lib layout is_preconditioner =
     run [HypreStructuredSolver lib layout is_preconditioner,
          unwinding (run
            [assign (\<lambda>s. s\<lparr>dyn_class := PCG\<rparr>),
             cond (\<lambda>s. is_preconditioner)
               (throw (logic_error ''HYPRE PCG cannot be used as a preconditioner'')),
             checked_new lib (\<lambda>s. HYPRE_StructCreate PCG (grid_comm layout)) (\<lambda>h s. s\<lparr>m_solver := h\<rparr>),
             unchecked_call lib (\<lambda>s. HYPRE_StructPCGSetTwoNorm (m_solver s) 1)])
            (destroy_HypreStructuredSolver lib)]"

definition HypreStructGMRES :: "'h::zero hypre_lib \<Rightarrow> array_layout \<Rightarrow> bool \<Rightarrow> ('v, 'h) stmt" where
  "HypreStructGMRES lib layout is_preconditioner =
     run [HypreStructuredSolver lib layout is_preconditioner,
          unwinding (run
            [assign (\<lambda>s. s\<lparr>dyn_class := GMRES\<rparr>),
             cond (\<lambda>s. is_preconditioner)
               (throw (logic_error ''HYPRE GMRES cannot be used as a preconditioner'')),
             checked_new lib (\<lambda>s. HYPRE_StructCreate GMRES (grid_comm layout)) (\<lambda>h s. s\<lparr>m_solver := h\<rparr>)])
            (destroy_HypreStructuredSolver lib)]"

definition HypreStructBiCGSTAB :: "'h::zero hypre_lib \<Rightarrow> array_layout \<Rightarrow> bool \<Rightarrow> ('v, 'h) stmt" where
  "HypreStructBiCGSTAB lib layout is_preconditioner =
     run [HypreStructuredSolver lib layout is_preconditioner,
          unwinding (run
            [assign (\<lambda>s. s\<lparr>dyn_class := BiCGSTAB\<rparr>),
             cond (\<lambda>s. is_preconditioner)
               (throw (logic_error ''HYPRE BiCGSTAB cannot be used as a preconditioner'')),
             checked_new lib (\<lambda>s. HYPRE_StructCreate BiCGSTAB (grid_comm layout)) (\<lambda>h s. s\<lparr>m_solver := h\<rparr>)])
            (destroy_HypreStructuredSolver lib)]"

definition HypreStructPFMG :: "'h::zero hypre_lib \<Rightarrow> array_layout \<Rightarrow> bool \<Rightarrow> ('v, 'h) stmt" where
  "HypreStructPFMG lib layout is_preconditioner =
     run [HypreStructuredSolver lib layout is_preconditioner,
          unwinding (run
            [assign (\<lambda>s. s\<lparr>dyn_class := PFMG\<rparr>),
             checked_new lib (\<lambda>s. HYPRE_StructCreate PFMG (grid_comm layout)) (\<lambda>h s. s\<lparr>m_solver := h\<rparr>),
             cond (\<lambda>s. is_preconditioner)
               (checked lib (\<lambda>s. HYPRE_StructSetZeroGuess PFMG (m_solver s)))])
            (destroy_HypreStructuredSolver lib)]"

definition HypreStructSMG :: "'h::zero hypre_lib \<Rightarrow> array_layout \<Rightarrow> bool \<Rightarrow> ('v, 'h) stmt" where
  "HypreStructSMG lib layout is_preconditioner =
     run [HypreStructuredSolver lib layout is_preconditioner,
          unwinding (run
            [assign (\<lambda>s. s\<lparr>dyn_class := SMG\<rparr>),
             checked_new lib (\<lambda>s. HYPRE_StructCreate SMG (grid_comm layout)) (\<lambda>h s. s\<lparr>m_solver := h\<rparr>),
             cond (\<lambda>s. is_preconditioner)
               (checked lib (\<lambda>s. HYPRE_StructSetZeroGuess SMG (m_solver s)))])
            (destroy_HypreStructuredSolver lib)]"

definition HypreStructJacobi :: "'h::zero hypre_lib \<Rightarrow> array_layout \<Rightarrow> bool \<Rightarrow> ('v, 'h) stmt" where
  "HypreStructJacobi lib layout is_preconditioner =
     run [HypreStructuredSolver lib layout is_preconditioner,
          unwinding (run
            [assign (\<lambda>s. s\<lparr>dyn_class := Jacobi\<rparr>),
             checked_new lib (\<lambda>s. HYPRE_StructCreate Jacobi (grid_comm layout)) (\<lambda>h s. s\<lparr>m_solver := h\<rparr>),
             cond (\<lambda>s. is_preconditioner)
               (checked lib (\<lambda>s. HYPRE_StructSetZeroGuess Jacobi (m_solver s)))])
            (destroy_HypreStructuredSolver lib)]"

definition HypreStructDiagonal :: "'h::zero hypre_lib \<Rightarrow> array_layout \<Rightarrow> bool \<Rightarrow> ('v, 'h) stmt" where
  "HypreStructDiagonal lib layout is_preconditioner =
     run [HypreStructuredSolver lib layout is_preconditioner,
          unwinding (run
            [assign (\<lambda>s. s\<lparr>dyn_class := Diagonal\<rparr>),
             cond (\<lambda>s. \<not> is_preconditioner)
               (throw (logic_error ''Diagonal preconditioner cannot be used as a solver''))])
            (destroy_HypreStructuredSolver lib)]"

text \<open>The virtual accessors a preconditioner is asked for.\<close>

definition getHypreSolver :: "solver \<Rightarrow> handle" where
  "getHypreSolver s = (if dyn_class s = Diagonal then nullptr else m_solver s)"

definition getHypreSetupFunction :: "solver \<Rightarrow> HYPRE_PtrToStructSolverFcn" where
  "getHypreSetupFunction s = SetupFcn (dyn_class s)"

definition getHypreSolveFunction :: "solver \<Rightarrow> HYPRE_PtrToStructSolverFcn" where
  "getHypreSolveFunction s = SolveFcn (dyn_class s)"

section \<open>Builders and the factory\<close>

text \<open>
  A builder is \<^verbatim>\<open>std::make_shared\<close> of the class: the constructor runs on fresh
  storage, which is the \<open>this\<close> of the state the builder is run in, and the pointer
  returned points to it.
\<close>

definition createHypreStructPCG :: "'h::zero hypre_lib \<Rightarrow> array_layout \<Rightarrow> bool \<Rightarrow> ('v, 'h) stmt" where
  "createHypreStructPCG lib layout is_preconditioner = HypreStructPCG lib layout is_preconditioner"

definition createHypreStructGMRES :: "'h::zero hypre_lib \<Rightarrow> array_layout \<Rightarrow> bool \<Rightarrow> ('v, 'h) stmt" where
  "createHypreStructGMRES lib layout is_preconditioner = HypreStructGMRES lib layout is_preconditioner"

definition createHypreStructBiCGSTAB :: "'h::zero hypre_lib \<Rightarrow> array_layout \<Rightarrow> bool \<Rightarrow> ('v, 'h) stmt" where
  "createHypreStructBiCGSTAB lib layout is_preconditioner =
     HypreStructBiCGSTAB lib layout is_preconditioner"

definition createHypreStructPFMG :: "'h::zero hypre_lib \<Rightarrow> array_layout \<Rightarrow> bool \<Rightarrow> ('v, 'h) stmt" where
  "createHypreStructPFMG lib layout is_preconditioner = HypreStructPFMG lib layout is_preconditioner"

definition createHypreStructSMG :: "'h::zero hypre_lib \<Rightarrow> array_layout \<Rightarrow> bool \<Rightarrow> ('v, 'h) stmt" where
  "createHypreStructSMG lib layout is_preconditioner = HypreStructSMG lib layout is_preconditioner"

definition createHypreStructJacobi :: "'h::zero hypre_lib \<Rightarrow> array_layout \<Rightarrow> bool \<Rightarrow> ('v, 'h) stmt" where
  "createHypreStructJacobi lib layout is_preconditioner =
     HypreStructJacobi lib layout is_preconditioner"

definition createHypreStructDiagonal :: "'h::zero hypre_lib \<Rightarrow> array_layout \<Rightarrow> bool \<Rightarrow> ('v, 'h) stmt" where
  "createHypreStructDiagonal lib layout is_preconditioner =
     HypreStructDiagonal lib layout is_preconditioner"

definition createHypreStructuredSolver ::
  "'h::zero hypre_lib \<Rightarrow> string \<Rightarrow> array_layout \<Rightarrow> bool \<Rightarrow> ('v, 'h) stmt" where
  "createHypreStructuredSolver lib solver_type layout is_preconditioner =
     (if ''PCG'' = solver_type then createHypreStructPCG lib layout is_preconditioner
      else if ''GMRES'' = solver_type then createHypreStructGMRES lib layout is_preconditioner
      else if ''BiCGSTAB'' = solver_type then createHypreStructBiCGSTAB lib layout is_preconditioner
      else if ''PFMG'' = solver_type then createHypreStructPFMG lib layout is_preconditioner
      else if ''SMG'' = solver_type then createHypreStructSMG lib layout is_preconditioner
      else if ''Jacobi'' = solver_type then createHypreStructJacobi lib layout is_preconditioner
      else if ''Diagonal'' = solver_type then createHypreStructDiagonal lib layout is_preconditioner
      else throw (runtime_error ''Invalid solver type''))"

section \<open>Kokkos views over a store\<close>

text \<open>
  Kokkos and the Cajita array classes are not among the sources; the solver uses them
  only to move data, and they are modelled by what their documentation says of the
  five operations the solver calls. A view is a handle to an allocation of the store:
  the address of the allocation, the memory space it lives in, and for a subview the
  window it shows (the index of its first element in every dimension, and its extent
  there). Copies of a view alias the same allocation.
\<close>

datatype memory_space = HostSpace | DeviceSpace

record kokkos_view =
  data :: nat
  space :: memory_space
  origin :: "int list"
  dims :: "nat list"

record array =
  layout :: array_layout
  view :: kokkos_view

text \<open>Whether a multi-index of the allocation lies in the window of a view.\<close>

fun in_box :: "int list \<Rightarrow> nat list \<Rightarrow> int list \<Rightarrow> bool" where
  "in_box [] [] [] = True"
| "in_box (lo # los) (n # ns) (i # is) = (lo \<le> i \<and> i < lo + int n \<and> in_box los ns is)"
| "in_box _ _ _ = False"

text \<open>
  The position of a multi-index in a \<^verbatim>\<open>Kokkos::LayoutRight\<close> buffer of the given
  extents (the last index runs fastest), and all multi-indices of such a buffer in the
  order of their positions.
\<close>

fun layout_right_offset :: "nat \<Rightarrow> nat list \<Rightarrow> nat list \<Rightarrow> nat" where
  "layout_right_offset acc (n # ns) (i # is) = layout_right_offset (acc * n + i) ns is"
| "layout_right_offset acc _ _ = acc"

fun all_indices :: "nat list \<Rightarrow> nat list list" where
  "all_indices [] = [[]]"
| "all_indices (n # ns) = concat (map (\<lambda>i. map ((#) i) (all_indices ns)) [0..<n])"

text \<open>
  \<^verbatim>\<open>Kokkos::create_mirror_view_and_copy( Kokkos::HostSpace(), src )\<close>: the view itself
  when it already lives in host memory, otherwise a new host allocation holding a copy.
  \<^verbatim>\<open>Kokkos::create_mirror_view( Kokkos::HostSpace(), src )\<close>: the view itself when it
  already lives in host memory, otherwise a new host allocation, which Kokkos fills
  with zeros and which holds nothing of the source.
\<close>

definition create_mirror_view_and_copy ::
  "kokkos_view \<Rightarrow> ('v, 'h) state \<Rightarrow> kokkos_view \<times> ('v, 'h) state" where
  "create_mirror_view_and_copy src w =
     (if space src = HostSpace then (src, w)
      else (src\<lparr>data := next_addr w, space := HostSpace\<rparr>,
            w\<lparr>mem := (mem w)(next_addr w := mem w (data src)),
              next_addr := Suc (next_addr w)\<rparr>))"

definition create_mirror_view ::
  "kokkos_view \<Rightarrow> ('v::zero, 'h) state \<Rightarrow> kokkos_view \<times> ('v, 'h) state" where
  "create_mirror_view src w =
     (if space src = HostSpace then (src, w)
      else (src\<lparr>data := next_addr w, space := HostSpace\<rparr>,
            w\<lparr>mem := (mem w)(next_addr w := (\<lambda>i. 0)),
              next_addr := Suc (next_addr w)\<rparr>))"

text \<open>
  \<^verbatim>\<open>createSubview( view, index_space )\<close>: the window of the view that the index space
  selects, over the first \<open>rank\<close> dimensions.
\<close>

definition createSubview :: "kokkos_view \<Rightarrow> index_space \<Rightarrow> nat \<Rightarrow> kokkos_view" where
  "createSubview v space_arg rank =
     v\<lparr>origin := map (\<lambda>d. origin v ! d + sint (min_idx space_arg d)) [0..<rank],
       dims := map (\<lambda>d. unat (extent space_arg d)) [0..<rank]\<rparr>"

text \<open>
  \<^verbatim>\<open>Kokkos::deep_copy( dst, src )\<close> in its three uses: between two views of the
  solver's scalar type, from such a view into a host buffer of \<^verbatim>\<open>HYPRE_Complex\<close>
  laid out \<^verbatim>\<open>LayoutRight\<close> over the extents \<open>ext\<close>, and from such a buffer back into
  a view. Element \<open>(i, j, ...)\<close> of the source goes to element \<open>(i, j, ...)\<close> of the
  destination, converted to the destination's value type.
\<close>

definition deep_copy :: "kokkos_view \<Rightarrow> kokkos_view \<Rightarrow> ('v, 'h) state \<Rightarrow> ('v, 'h) state" where
  "deep_copy dst src w =
     w\<lparr>mem := (mem w)(data dst :=
          (\<lambda>i. if in_box (origin dst) (dims dst) i
               then mem w (data src) (map2 (+) (origin src) (map2 (-) i (origin dst)))
               else mem w (data dst) i))\<rparr>"

definition deep_copy_to_buffer ::
  "('v \<Rightarrow> 'h) \<Rightarrow> nat list \<Rightarrow> kokkos_view \<Rightarrow> ('v, 'h) state \<Rightarrow> 'h list" where
  "deep_copy_to_buffer convert ext src w =
     map (\<lambda>i. convert (mem w (data src) (map2 (+) (origin src) (map int i)))) (all_indices ext)"

definition deep_copy_from_buffer ::
  "('h \<Rightarrow> 'v) \<Rightarrow> kokkos_view \<Rightarrow> nat list \<Rightarrow> 'h list \<Rightarrow> ('v, 'h) state \<Rightarrow> ('v, 'h) state" where
  "deep_copy_from_buffer convert dst ext buffer w =
     w\<lparr>mem := (mem w)(data dst :=
          (\<lambda>i. if in_box (origin dst) (dims dst) i
               then convert (buffer ! layout_right_offset 0 ext (map2 (\<lambda>a b. nat (a - b)) i (origin dst)))
               else mem w (data dst) i))\<rparr>"

section \<open>The operations of the solver\<close>

text \<open>
  The loop of \<^verbatim>\<open>setMatrixStencil\<close>. Its counter is an \<^verbatim>\<open>unsigned\<close> compared with
  the vector's \<^verbatim>\<open>size_t\<close> length, so on a vector of \<open>2 ^ 32\<close> entries or more the
  counter wraps and the loop need not end: not returning is the value \<open>None\<close>.
  The inner loop copies the \<open>NumSpaceDim\<close> components of entry \<open>n\<close> into \<^verbatim>\<open>offset\<close>.
\<close>

partial_function (option) stencil_loop ::
  "'h hypre_lib \<Rightarrow> nat \<Rightarrow> c_int list list \<Rightarrow> c_unsigned \<Rightarrow> ('v, 'h) state
     \<Rightarrow> (exn option \<times> ('v, 'h) state) option" where
  "stencil_loop lib NumSpaceDim stencil n w =
     (if unat n < length stencil then
        (case checked lib (\<lambda>s. HYPRE_StructStencilSetElement (m_stencil s) n
                                 (map (\<lambda>d. stencil ! unat n ! d) [0..<NumSpaceDim])) w of
           (None, w') \<Rightarrow> stencil_loop lib NumSpaceDim stencil (n + 1) w'
         | (Some e, w') \<Rightarrow> Some (Some e, w'))
      else Some (None, w))"

definition setMatrixStencil ::
  "'h hypre_lib \<Rightarrow> nat \<Rightarrow> c_int list list \<Rightarrow> bool \<Rightarrow> ('v, 'h) state
     \<Rightarrow> (exn option \<times> ('v, 'h) state) option" where
  "setMatrixStencil lib NumSpaceDim stencil is_symmetric w =
     (if m_is_preconditioner (this w) then
        Some (throw (logic_error ''Cannot call setMatrixStencil() on preconditioners'') w)
      else
        (case run [assign (\<lambda>s. s\<lparr>m_stencil_size := of_nat (length stencil)\<rparr>),
                   checked_new lib (\<lambda>s. HYPRE_StructStencilCreate (of_nat NumSpaceDim) (m_stencil_size s))
                     (\<lambda>h s. s\<lparr>m_stencil := h\<rparr>)] w of
           (Some e, w1) \<Rightarrow> Some (Some e, w1)
         | (None, w1) \<Rightarrow>
            (case stencil_loop lib NumSpaceDim stencil 0 w1 of
               None \<Rightarrow> None
             | Some (Some e, w2) \<Rightarrow> Some (Some e, w2)
             | Some (None, w2) \<Rightarrow>
                 Some (run [checked_new lib (\<lambda>s. HYPRE_StructMatrixCreate (m_comm s) (m_grid s) (m_stencil s))
                              (\<lambda>h s. s\<lparr>m_A := h\<rparr>),
                            checked lib (\<lambda>s. HYPRE_StructMatrixSetSymmetric (m_A s)
                                                (if is_symmetric then 1 else 0))] w2))))"

text \<open>
  \<^verbatim>\<open>setMatrixValues( values )\<close>. The matrix entries of the owned cells are staged
  through a host mirror into the buffer \<^verbatim>\<open>a_values\<close>, whose last extent is the
  stencil size, and handed to HYPRE with the stencil indices \<open>0, 1, ...\<close>.
\<close>

definition setMatrixValues :: "'h hypre_lib \<Rightarrow> ('v \<Rightarrow> 'h) \<Rightarrow> array \<Rightarrow> ('v, 'h) stmt" where
  "setMatrixValues lib to_HYPRE_Complex values w =
     (if m_is_preconditioner (this w) then
        throw (logic_error ''Cannot call setMatrixValues() on preconditioners'') w
      else if dofsPerEntity (layout values) \<noteq> m_stencil_size (this w) then
        throw (runtime_error ''Number of matrix values does not match stencil size'') w
      else
        (case checked lib (\<lambda>s. HYPRE_StructMatrixInitialize (m_A s)) w of
           (Some e, w1) \<Rightarrow> (Some e, w1)
         | (None, w1) \<Rightarrow>
            (let n = num_space_dim (layout values);
                 (values_mirror, w2) = create_mirror_view_and_copy (view values) w1;
                 owned_space = indexSpace_Own_Local (layout values);
                 reorder_size = map (\<lambda>d. unat (extent owned_space d)) [0..<n]
                                  @ [unat (m_stencil_size (this w2))];
                 values_mirror_subv = createSubview values_mirror owned_space (Suc n);
                 a_values = deep_copy_to_buffer to_HYPRE_Complex reorder_size values_mirror_subv w2;
                 indices = map of_nat [0..<unat (m_stencil_size (this w2))]
             in run [checked lib (\<lambda>s. HYPRE_StructMatrixSetBoxValues (m_A s) (m_lower s) (m_upper s)
                                         (of_nat (length indices)) indices a_values),
                     checked lib (\<lambda>s. HYPRE_StructMatrixAssemble (m_A s))] w2)))"

text \<open>
  \<^verbatim>\<open>setPreconditionerImpl\<close>, \<^verbatim>\<open>setupImpl\<close> and \<^verbatim>\<open>solveImpl\<close>, dispatched on the
  dynamic class of the object.
\<close>

definition setPreconditionerImpl :: "'h hypre_lib \<Rightarrow> solver \<Rightarrow> ('v, 'h) stmt" where
  "setPreconditionerImpl lib preconditioner w =
     (case dyn_class (this w) of
        PFMG \<Rightarrow> throw (logic_error ''HYPRE PFMG solver does not support preconditioning.'') w
      | SMG \<Rightarrow> throw (logic_error ''HYPRE SMG solver does not support preconditioning.'') w
      | Jacobi \<Rightarrow> throw (logic_error ''HYPRE Jacobi solver does not support preconditioning.'') w
      | Diagonal \<Rightarrow> throw (logic_error ''Diagonal preconditioner does not support preconditioning.'') w
      | krylov \<Rightarrow>
          checked lib (\<lambda>s. HYPRE_StructSetPrecond krylov (m_solver s)
                              (getHypreSolveFunction preconditioner)
                              (getHypreSetupFunction preconditioner)
                              (getHypreSolver preconditioner)) w)"

definition setupImpl :: "'h hypre_lib \<Rightarrow> ('v, 'h) stmt" where
  "setupImpl lib w =
     (case dyn_class (this w) of
        Diagonal \<Rightarrow> throw (logic_error ''Diagonal preconditioner cannot be used as a solver'') w
      | c \<Rightarrow> checked lib (\<lambda>s. HYPRE_StructSetup c (m_solver s) (m_A s) (m_b s) (m_x s)) w)"

definition solveImpl :: "'h hypre_lib \<Rightarrow> ('v, 'h) stmt" where
  "solveImpl lib w =
     (case dyn_class (this w) of
        Diagonal \<Rightarrow> throw (logic_error ''Diagonal preconditioner cannot be used as a solver'') w
      | c \<Rightarrow> checked lib (\<lambda>s. HYPRE_StructSolve c (m_solver s) (m_A s) (m_b s) (m_x s)) w)"

text \<open>
  \<^verbatim>\<open>setPreconditioner( preconditioner )\<close>. The shared pointer is given as the address
  it holds together with the solver it points to.
\<close>

definition setPreconditioner :: "'h hypre_lib \<Rightarrow> nat \<times> solver \<Rightarrow> ('v, 'h) stmt" where
  "setPreconditioner lib preconditioner w =
     (if m_is_preconditioner (this w) then
        throw (logic_error ''Cannot call setPreconditioner() on a preconditioner'') w
      else if \<not> isPreconditioner (snd preconditioner) then
        throw (logic_error ''Not a preconditioner'') w
      else
        run [assign (\<lambda>s. s\<lparr>m_preconditioner := Some (fst preconditioner)\<rparr>),
             setPreconditionerImpl lib (snd preconditioner)] w)"

text \<open>\<^verbatim>\<open>setup()\<close>, named \<open>setup_problem\<close> here.\<close>

definition setup_problem :: "'h hypre_lib \<Rightarrow> ('v, 'h) stmt" where
  "setup_problem lib w =
     (if m_is_preconditioner (this w) then
        throw (logic_error ''Cannot call setup() on preconditioners'') w
      else setupImpl lib w)"

text \<open>
  \<^verbatim>\<open>solve( b, x )\<close>. The right-hand side is staged through a host mirror of \<open>b\<close> into
  the buffer \<^verbatim>\<open>vector_values\<close> and handed to HYPRE; after the solve HYPRE fills the
  same buffer with the solution, which is copied into the owned window of a host
  mirror of \<open>x\<close>, and the whole mirror is copied back to \<open>x\<close>.
\<close>

definition solve ::
  "'h hypre_lib \<Rightarrow> ('v \<Rightarrow> 'h) \<Rightarrow> ('h \<Rightarrow> 'v) \<Rightarrow> array \<Rightarrow> array \<Rightarrow> ('v::zero, 'h) stmt" where
  "solve lib to_HYPRE_Complex to_Scalar b x w =
     (if m_is_preconditioner (this w) then
        throw (logic_error ''Cannot call solve() on preconditioners'') w
      else if dofsPerEntity (layout b) \<noteq> 1 \<or> dofsPerEntity (layout x) \<noteq> 1 then
        throw (runtime_error ''Structured solver only for scalar fields'') w
      else
        (case checked lib (\<lambda>s. HYPRE_StructVectorInitialize (m_b s)) w of
           (Some e, w1) \<Rightarrow> (Some e, w1)
         | (None, w1) \<Rightarrow>
            (let n = num_space_dim (layout b);
                 (b_mirror, w2) = create_mirror_view_and_copy (view b) w1;
                 owned_space = indexSpace_Own_Local (layout b);
                 reorder_size = map (\<lambda>d. unat (extent owned_space d)) [0..<n] @ [1];
                 b_mirror_subv = createSubview b_mirror owned_space (Suc n);
                 vector_values = deep_copy_to_buffer to_HYPRE_Complex reorder_size b_mirror_subv w2
             in (case run [checked lib (\<lambda>s. HYPRE_StructVectorSetBoxValues (m_b s) (m_lower s) (m_upper s)
                                               vector_values),
                           checked lib (\<lambda>s. HYPRE_StructVectorAssemble (m_b s)),
                           solveImpl lib,
                           checked lib (\<lambda>s. HYPRE_StructVectorGetBoxValues (m_x s) (m_lower s) (m_upper s))]
                       w2 of
                   (Some e, w3) \<Rightarrow> (Some e, w3)
                 | (None, w3) \<Rightarrow>
                    (let solution = out_values lib (trace w3);
                         (x_mirror, w4) = create_mirror_view (view x) w3;
                         x_mirror_subv = createSubview x_mirror owned_space (Suc n);
                         w5 = deep_copy_from_buffer to_Scalar x_mirror_subv reorder_size solution w4;
                         w6 = deep_copy (view x) x_mirror w5
                     in (None, w6))))))"

section \<open>Vocabulary for the statements\<close>

text \<open>
  The name the factory knows each class by, the constructor of each class, and the
  role (preconditioner or not) in which the constructor's own guard lets the class be
  built. The last two restate nothing: they only let the theorems speak of "the class
  matching the name" and are compared with the factory and the constructors below.
\<close>

fun solver_type_of :: "solver_class \<Rightarrow> string" where
  "solver_type_of PCG = ''PCG''"
| "solver_type_of GMRES = ''GMRES''"
| "solver_type_of BiCGSTAB = ''BiCGSTAB''"
| "solver_type_of PFMG = ''PFMG''"
| "solver_type_of SMG = ''SMG''"
| "solver_type_of Jacobi = ''Jacobi''"
| "solver_type_of Diagonal = ''Diagonal''"

fun constructor_of :: "solver_class \<Rightarrow> 'h::zero hypre_lib \<Rightarrow> array_layout \<Rightarrow> bool \<Rightarrow> ('v, 'h) stmt" where
  "constructor_of PCG = HypreStructPCG"
| "constructor_of GMRES = HypreStructGMRES"
| "constructor_of BiCGSTAB = HypreStructBiCGSTAB"
| "constructor_of PFMG = HypreStructPFMG"
| "constructor_of SMG = HypreStructSMG"
| "constructor_of Jacobi = HypreStructJacobi"
| "constructor_of Diagonal = HypreStructDiagonal"

fun guard_admits :: "solver_class \<Rightarrow> bool \<Rightarrow> bool" where
  "guard_admits PCG is_preconditioner = (\<not> is_preconditioner)"
| "guard_admits GMRES is_preconditioner = (\<not> is_preconditioner)"
| "guard_admits BiCGSTAB is_preconditioner = (\<not> is_preconditioner)"
| "guard_admits PFMG is_preconditioner = True"
| "guard_admits SMG is_preconditioner = True"
| "guard_admits Jacobi is_preconditioner = True"
| "guard_admits Diagonal is_preconditioner = is_preconditioner"

text \<open>The message with which a constructor refuses a role.\<close>

fun refusal :: "solver_class \<Rightarrow> string" where
  "refusal PCG = ''HYPRE PCG cannot be used as a preconditioner''"
| "refusal GMRES = ''HYPRE GMRES cannot be used as a preconditioner''"
| "refusal BiCGSTAB = ''HYPRE BiCGSTAB cannot be used as a preconditioner''"
| "refusal k = ''Diagonal preconditioner cannot be used as a solver''"

text \<open>What an operation leaves alone when it only talks to HYPRE.\<close>

definition ctor_frame :: "('v, 'h) state \<Rightarrow> ('v, 'h) state \<Rightarrow> bool" where
  "ctor_frame w w' \<longleftrightarrow>
     m_is_preconditioner (this w') = m_is_preconditioner (this w)
     \<and> m_lower (this w') = m_lower (this w) \<and> m_upper (this w') = m_upper (this w)
     \<and> m_grid (this w') = m_grid (this w) \<and> m_comm (this w') = m_comm (this w)
     \<and> m_preconditioner (this w') = m_preconditioner (this w)
     \<and> (\<exists>r. trace w' = trace w @ r) \<and> mem w' = mem w \<and> next_addr w' = next_addr w"

section \<open>Concrete inputs\<close>

text \<open>
  A HYPRE that reports success on every call and numbers its handles by the length of
  the trace, one that fails every call with code 1, raw storage for a solver, and a
  state with an empty trace and an empty store.
\<close>

definition hypre_ok :: "int hypre_lib" where
  "hypre_ok = \<lparr>return_code = (\<lambda>tr. 0), out_handle = (\<lambda>tr. length tr),
                out_values = (\<lambda>tr. []), error_msg = (\<lambda>tr. ''none'')\<rparr>"

definition hypre_failing :: "int hypre_lib" where
  "hypre_failing = \<lparr>return_code = (\<lambda>tr. 1), out_handle = (\<lambda>tr. length tr),
                     out_values = (\<lambda>tr. []), error_msg = (\<lambda>tr. ''generic error'')\<rparr>"

definition raw_storage :: solver where
  "raw_storage = \<lparr>dyn_class = PCG, m_comm = 0, m_is_preconditioner = False, m_grid = 0,
                   m_lower = [], m_upper = [], m_stencil = 0, m_stencil_size = 0, m_A = 0,
                   m_b = 0, m_x = 0, m_preconditioner = None, m_solver = 0\<rparr>"

definition empty_state :: "(int, int) state" where
  "empty_state = \<lparr>this = raw_storage, trace = [], mem = (\<lambda>a i. 0), next_addr = 0\<rparr>"

text \<open>
  A layout of a three-dimensional grid of 8 x 8 x 16 cells, periodic in the first
  dimension only, of which this rank owns the cells [0,4) x [4,8) x [8,16); locally
  they are the cells [1,5) x [1,5) x [1,9) of an array with one ghost layer. The fourth
  dimension of an index space is the one of the degrees of freedom.
\<close>

definition layout_3d :: array_layout where
  "layout_3d = \<lparr>num_space_dim = 3, grid_comm = 1,
     indexSpace_Own_Global = \<lparr>min_idx = (\<lambda>d. [0, 4, 8, 0] ! d), max_idx = (\<lambda>d. [4, 8, 16, 1] ! d)\<rparr>,
     indexSpace_Own_Local = \<lparr>min_idx = (\<lambda>d. [1, 1, 1, 0] ! d), max_idx = (\<lambda>d. [5, 5, 9, 1] ! d)\<rparr>,
     isPeriodic = (\<lambda>d. d = 0), globalNumEntity = (\<lambda>d. [8, 8, 16] ! d), dofsPerEntity = 1\<rparr>"

text \<open>
  A two-dimensional layout of 2 x 2 owned cells with one ghost layer, so that arrays over
  it have 4 x 4 cells and one degree of freedom, and two such arrays in a memory space:
  \<open>b\<close> in allocation 0 and \<open>x\<close> in allocation 1. In the state \<open>two_arrays\<close> every
  entry of \<open>b\<close> is 1 and every entry of \<open>x\<close> is 5. The library \<open>hypre_solution\<close>
  reports success and returns 10, 20, 30, 40 as the values of a box.
\<close>

definition layout_2d :: array_layout where
  "layout_2d = \<lparr>num_space_dim = 2, grid_comm = 1,
     indexSpace_Own_Global = \<lparr>min_idx = (\<lambda>d. [0, 0, 0] ! d), max_idx = (\<lambda>d. [2, 2, 1] ! d)\<rparr>,
     indexSpace_Own_Local = \<lparr>min_idx = (\<lambda>d. [1, 1, 0] ! d), max_idx = (\<lambda>d. [3, 3, 1] ! d)\<rparr>,
     isPeriodic = (\<lambda>d. False), globalNumEntity = (\<lambda>d. [2, 2] ! d), dofsPerEntity = 1\<rparr>"

definition array_b :: "memory_space \<Rightarrow> array" where
  "array_b sp = \<lparr>layout = layout_2d,
                  view = \<lparr>data = 0, space = sp, origin = [0, 0, 0], dims = [4, 4, 1]\<rparr>\<rparr>"

definition array_x :: "memory_space \<Rightarrow> array" where
  "array_x sp = \<lparr>layout = layout_2d,
                  view = \<lparr>data = 1, space = sp, origin = [0, 0, 0], dims = [4, 4, 1]\<rparr>\<rparr>"

definition two_arrays :: "(int, int) state" where
  "two_arrays = \<lparr>this = raw_storage, trace = [],
                  mem = (\<lambda>a i. if a = 0 then 1 else if a = 1 then 5 else 0), next_addr = 2\<rparr>"

definition hypre_solution :: "int hypre_lib" where
  "hypre_solution = \<lparr>return_code = (\<lambda>tr. 0), out_handle = (\<lambda>tr. length tr),
                      out_values = (\<lambda>tr. [10, 20, 30, 40]), error_msg = (\<lambda>tr. ''none'')\<rparr>"

section \<open>Lemmas about statements\<close>

lemma hypre_fst [simp]: "fst (hypre lib c w) = return_code lib (trace w @ [c])"
  by (simp add: hypre_def)

lemma hypre_snd [simp]: "snd (hypre lib c w) = w\<lparr>trace := trace w @ [c]\<rparr>"
  by (simp add: hypre_def)

lemma checkHypreError_ok: "sint error \<le> 0 \<Longrightarrow> checkHypreError lib error w = (None, w)"
  by (simp add: checkHypreError_def)

lemma fst_checkHypreError: "fst (checkHypreError lib error w) = None \<longleftrightarrow> sint error \<le> 0"
  by (simp add: checkHypreError_def Let_def)

lemma checkHypreError_throws:
  "fst (checkHypreError lib error w) = Some e \<Longrightarrow> \<exists>msg. e = runtime_error msg"
  by (auto simp: checkHypreError_def Let_def split: if_splits)

lemma checkHypreError_frame:
  "this (snd (checkHypreError lib error w)) = this w"
  "mem (snd (checkHypreError lib error w)) = mem w"
  "next_addr (snd (checkHypreError lib error w)) = next_addr w"
  by (simp_all add: checkHypreError_def Let_def)

lemma checkHypreError_trace:
  "\<exists>r. trace (snd (checkHypreError lib error w)) = trace w @ r"
  by (simp add: checkHypreError_def Let_def)

lemma fst_checked:
  "fst (checked lib c w) = None \<longleftrightarrow> sint (return_code lib (trace w @ [c (this w)])) \<le> 0"
  by (simp add: checked_def hypre_def fst_checkHypreError)

lemma checked_ok:
  "sint (return_code lib (trace w @ [c (this w)])) \<le> 0 \<Longrightarrow>
   checked lib c w = (None, w\<lparr>trace := trace w @ [c (this w)]\<rparr>)"
  by (simp add: checked_def hypre_def checkHypreError_ok)

lemma checked_throws: "fst (checked lib c w) = Some e \<Longrightarrow> \<exists>msg. e = runtime_error msg"
  by (auto simp: checked_def hypre_def dest: checkHypreError_throws)

lemma checked_frame:
  "this (snd (checked lib c w)) = this w"
  "mem (snd (checked lib c w)) = mem w"
  "next_addr (snd (checked lib c w)) = next_addr w"
  by (simp_all add: checked_def hypre_def checkHypreError_frame)

lemma checked_trace: "\<exists>r. trace (snd (checked lib c w)) = trace w @ c (this w) # r"
  using checkHypreError_trace [of lib "return_code lib (trace w @ [c (this w)])"
      "w\<lparr>trace := trace w @ [c (this w)]\<rparr>"]
  by (auto simp: checked_def hypre_def)

lemma fst_checked_new:
  "fst (checked_new lib c st w) = None \<longleftrightarrow> sint (return_code lib (trace w @ [c (this w)])) \<le> 0"
  by (simp add: checked_new_def hypre_def fst_checkHypreError)

lemma checked_new_ok:
  "sint (return_code lib (trace w @ [c (this w)])) \<le> 0 \<Longrightarrow>
   checked_new lib c st w =
     (None, w\<lparr>trace := trace w @ [c (this w)],
               this := st (out_handle lib (trace w @ [c (this w)])) (this w)\<rparr>)"
  by (simp add: checked_new_def hypre_def checkHypreError_ok)

lemma checked_new_throws: "fst (checked_new lib c st w) = Some e \<Longrightarrow> \<exists>msg. e = runtime_error msg"
  by (auto simp: checked_new_def hypre_def dest: checkHypreError_throws)

lemma checked_new_frame:
  "this (snd (checked_new lib c st w)) = st (out_handle lib (trace w @ [c (this w)])) (this w)"
  "mem (snd (checked_new lib c st w)) = mem w"
  "next_addr (snd (checked_new lib c st w)) = next_addr w"
  by (simp_all add: checked_new_def hypre_def checkHypreError_frame)

lemma checked_new_trace: "\<exists>r. trace (snd (checked_new lib c st w)) = trace w @ c (this w) # r"
  using checkHypreError_trace [of lib "return_code lib (trace w @ [c (this w)])"
      "w\<lparr>trace := trace w @ [c (this w)],
         this := st (out_handle lib (trace w @ [c (this w)])) (this w)\<rparr>"]
  by (auto simp: checked_new_def hypre_def)

section \<open>Lemmas about sequences of statements\<close>

lemma run_Cons_if:
  "run (f # fs) w = (if fst (f w) = None then run fs (snd (f w)) else f w)"
  by (cases "f w") (auto split: option.splits)

lemma run_append:
  "run (fs @ gs) w = (if fst (run fs w) = None then run gs (snd (run fs w)) else run fs w)"
proof (induction fs arbitrary: w)
  case Nil
  then show ?case by simp
next
  case (Cons f fs)
  then show ?case by (cases "f w") (auto split: option.splits)
qed

lemma run_rel:
  assumes refl: "\<And>w. R w w"
    and trans: "\<And>a b c. R a b \<Longrightarrow> R b c \<Longrightarrow> R a c"
    and step: "\<And>f w. f \<in> set fs \<Longrightarrow> R w (snd (f w))"
  shows "R w (snd (run fs w))"
  using step
proof (induction fs arbitrary: w)
  case Nil
  then show ?case by (simp add: refl)
next
  case (Cons f fs)
  have first: "R w (snd (f w))" using Cons.prems by simp
  have rest: "R (snd (f w)) (snd (run fs (snd (f w))))"
    using Cons.IH Cons.prems by simp
  show ?case
  proof (cases "fst (f w) = None")
    case True
    then show ?thesis using trans [OF first rest] by (simp add: run_Cons_if del: run.simps)
  next
    case False
    then have "run (f # fs) w = f w"
      by (simp add: run_Cons_if del: run.simps not_None_eq)
    then show ?thesis using first by simp
  qed
qed

lemma run_ok:
  assumes "\<And>f w. f \<in> set fs \<Longrightarrow> fst (f w) = None"
  shows "fst (run fs w) = None"
  using assms
proof (induction fs arbitrary: w)
  case Nil
  then show ?case by simp
next
  case (Cons f fs)
  then show ?case by (simp add: run_Cons_if del: run.simps)
qed

lemma run_throws:
  assumes "\<And>f w e. f \<in> set fs \<Longrightarrow> fst (f w) = Some e \<Longrightarrow> Q e"
    and "fst (run fs w) = Some e"
  shows "Q e"
  using assms
proof (induction fs arbitrary: w)
  case Nil
  then show ?case by simp
next
  case (Cons f fs)
  show ?case
  proof (cases "fst (f w) = None")
    case True
    then have "fst (run fs (snd (f w))) = Some e"
      using Cons.prems(2) by (simp add: run_Cons_if del: run.simps)
    moreover have "\<And>g v e. g \<in> set fs \<Longrightarrow> fst (g v) = Some e \<Longrightarrow> Q e"
      using Cons.prems(1) by (meson list.set_intros(2))
    ultimately show ?thesis by (rule Cons.IH [rotated])
  next
    case False
    then have "fst (f w) = Some e"
      using Cons.prems(2) by (simp add: run_Cons_if del: run.simps not_None_eq)
    then show ?thesis using Cons.prems(1) by (meson list.set_intros(1))
  qed
qed


section \<open>Running a sequence statement by statement\<close>

lemma fst_run_checked:
  "fst (run (checked lib c # fs) w) = None \<longleftrightarrow>
     sint (return_code lib (trace w @ [c (this w)])) \<le> 0
     \<and> fst (run fs (w\<lparr>trace := trace w @ [c (this w)]\<rparr>)) = None"
  by (simp add: run_Cons_if fst_checked checked_ok del: run.simps)

lemma run_checked_ok:
  "sint (return_code lib (trace w @ [c (this w)])) \<le> 0 \<Longrightarrow>
   run (checked lib c # fs) w = run fs (w\<lparr>trace := trace w @ [c (this w)]\<rparr>)"
  by (simp add: run_Cons_if fst_checked checked_ok del: run.simps)

lemma fst_run_checked_new:
  "fst (run (checked_new lib c st # fs) w) = None \<longleftrightarrow>
     sint (return_code lib (trace w @ [c (this w)])) \<le> 0
     \<and> fst (run fs (w\<lparr>trace := trace w @ [c (this w)],
               this := st (out_handle lib (trace w @ [c (this w)])) (this w)\<rparr>)) = None"
  by (simp add: run_Cons_if fst_checked_new checked_new_ok del: run.simps)

lemma run_checked_new_ok:
  "sint (return_code lib (trace w @ [c (this w)])) \<le> 0 \<Longrightarrow>
   run (checked_new lib c st # fs) w =
     run fs (w\<lparr>trace := trace w @ [c (this w)],
               this := st (out_handle lib (trace w @ [c (this w)])) (this w)\<rparr>)"
  by (simp add: run_Cons_if fst_checked_new checked_new_ok del: run.simps)

lemma run_assign_Cons: "run (assign f # fs) w = run fs (w\<lparr>this := f (this w)\<rparr>)"
  by (simp add: assign_def)

lemma run_cond_Cons:
  "run (cond c f # fs) w = (if c (this w) then run (f # fs) w else run fs w)"
  by (simp add: cond_def)

lemma run_run_Cons: "run (run gs # fs) w = run (gs @ fs) w"
proof (induction gs arbitrary: w)
  case Nil
  then show ?case by simp
next
  case (Cons g gs)
  then show ?case by (cases "g w") (auto split: option.splits)
qed

lemmas run_steps = fst_run_checked run_checked_ok fst_run_checked_new run_checked_new_ok
  run_assign_Cons run_cond_Cons run_run_Cons

section \<open>What the base constructor does\<close>

lemma update_prefix_drop:
  assumes "k < length xs"
  shows "(map f [0..<k] @ drop k xs)[k := v] = map f [0..<k] @ v # drop (Suc k) xs"
proof -
  have "drop k xs = xs ! k # drop (Suc k) xs"
    using assms by (simp add: Cons_nth_drop_Suc)
  then show ?thesis by (simp add: list_update_append)
qed

lemma set_extents_loop_fold:
  "k \<le> length (m_lower s) \<Longrightarrow> k \<le> length (m_upper s) \<Longrightarrow>
   fold (\<lambda>d s. s\<lparr>m_lower := (m_lower s)[d := fl d], m_upper := (m_upper s)[d := fu d]\<rparr>) [0..<k] s
   = s\<lparr>m_lower := map fl [0..<k] @ drop k (m_lower s),
        m_upper := map fu [0..<k] @ drop k (m_upper s)\<rparr>"
proof (induction k)
  case 0
  then show ?case by simp
next
  case (Suc k)
  then show ?case by (simp add: update_prefix_drop)
qed

lemma set_extents_loop_eq:
  "length (m_lower s) = n \<Longrightarrow> length (m_upper s) = n \<Longrightarrow>
   set_extents_loop gs n s =
     s\<lparr>m_lower := map (\<lambda>d. scast (min_idx gs (n - d - 1))) [0..<n],
       m_upper := map (\<lambda>d. scast (max_idx gs (n - d - 1) - 1)) [0..<n]\<rparr>"
  by (simp add: set_extents_loop_def set_extents_loop_fold)

lemma ctor_frame_refl: "ctor_frame w w"
  by (simp add: ctor_frame_def)

lemma ctor_frame_trans: "ctor_frame a b \<Longrightarrow> ctor_frame b c \<Longrightarrow> ctor_frame a c"
  by (auto simp: ctor_frame_def)

lemma ctor_frame_checked: "ctor_frame w (snd (checked lib c w))"
  using checked_trace [of lib c w] by (auto simp: ctor_frame_def checked_frame)

lemma ctor_frame_checked_new:
  assumes "\<And>h s. m_is_preconditioner (st h s) = m_is_preconditioner s \<and> m_lower (st h s) = m_lower s
     \<and> m_upper (st h s) = m_upper s \<and> m_grid (st h s) = m_grid s \<and> m_comm (st h s) = m_comm s
     \<and> m_preconditioner (st h s) = m_preconditioner s"
  shows "ctor_frame w (snd (checked_new lib c st w))"
  using checked_new_trace [of lib c st w] assms by (auto simp: ctor_frame_def checked_new_frame)

lemma base_ctor_vectors_frame:
  "ctor_frame w (snd (run
     [checked lib (\<lambda>s. HYPRE_StructGridAssemble (m_grid s)),
      checked_new lib (\<lambda>s. HYPRE_StructVectorCreate (m_comm s) (m_grid s)) (\<lambda>h s. s\<lparr>m_b := h\<rparr>),
      checked lib (\<lambda>s. HYPRE_StructVectorInitialize (m_b s)),
      checked lib (\<lambda>s. HYPRE_StructVectorSetBoxValues (m_b s) (m_lower s) (m_upper s) zs),
      checked lib (\<lambda>s. HYPRE_StructVectorAssemble (m_b s)),
      checked_new lib (\<lambda>s. HYPRE_StructVectorCreate (m_comm s) (m_grid s)) (\<lambda>h s. s\<lparr>m_x := h\<rparr>),
      checked lib (\<lambda>s. HYPRE_StructVectorInitialize (m_x s)),
      checked lib (\<lambda>s. HYPRE_StructVectorSetBoxValues (m_x s) (m_lower s) (m_upper s) zs),
      checked lib (\<lambda>s. HYPRE_StructVectorAssemble (m_x s))] w))"
  by (rule run_rel [where R = ctor_frame, OF ctor_frame_refl ctor_frame_trans])
     (auto intro: ctor_frame_checked ctor_frame_checked_new)


lemma base_ctor_grid:
  fixes lib :: "'h::zero hypre_lib" and w :: "('v, 'h) state" and layout :: array_layout
  assumes ok: "fst (HypreStructuredSolver lib layout False w) = None"
  defines "w' \<equiv> snd (HypreStructuredSolver lib layout False w)"
  defines "n \<equiv> num_space_dim layout"
  defines "gs \<equiv> indexSpace_Own_Global layout"
  shows "m_is_preconditioner (this w') = False
    \<and> m_comm (this w') = grid_comm layout
    \<and> m_preconditioner (this w') = None
    \<and> m_lower (this w') = map (\<lambda>d. scast (min_idx gs (n - d - 1))) [0..<n]
    \<and> m_upper (this w') = map (\<lambda>d. scast (max_idx gs (n - d - 1) - 1)) [0..<n]
    \<and> (\<exists>r. trace w' = trace w @
          [HYPRE_StructGridCreate (grid_comm layout) (of_nat n),
           HYPRE_StructGridSetExtents (m_grid (this w')) (m_lower (this w')) (m_upper (this w')),
           HYPRE_StructGridSetPeriodic (m_grid (this w')) (periodic_loop layout (replicate n 0))] @ r)
    \<and> mem w' = mem w \<and> next_addr w' = next_addr w"
proof -
  define w0 where "w0 = w\<lparr>this := (this w)\<lparr>m_comm := grid_comm layout, m_is_preconditioner := False,
                        m_lower := [], m_upper := [], m_preconditioner := None\<rparr>\<rparr>"
  define L1 :: "('v, 'h) stmt list" where "L1 =
    [checked_new lib (\<lambda>s. HYPRE_StructGridCreate (m_comm s) (of_nat n)) (\<lambda>h s. s\<lparr>m_grid := h\<rparr>),
     assign (\<lambda>s. s\<lparr>m_lower := replicate n 0, m_upper := replicate n 0\<rparr>),
     assign (set_extents_loop gs n),
     checked lib (\<lambda>s. HYPRE_StructGridSetExtents (m_grid s) (m_lower s) (m_upper s)),
     checked lib (\<lambda>s. HYPRE_StructGridSetPeriodic (m_grid s) (periodic_loop layout (replicate n 0)))]"
  define L2 :: "('v, 'h) stmt list" where "L2 =
    [checked lib (\<lambda>s. HYPRE_StructGridAssemble (m_grid s)),
     checked_new lib (\<lambda>s. HYPRE_StructVectorCreate (m_comm s) (m_grid s)) (\<lambda>h s. s\<lparr>m_b := h\<rparr>),
     checked lib (\<lambda>s. HYPRE_StructVectorInitialize (m_b s)),
     checked lib (\<lambda>s. HYPRE_StructVectorSetBoxValues (m_b s) (m_lower s) (m_upper s) (zero_values gs n)),
     checked lib (\<lambda>s. HYPRE_StructVectorAssemble (m_b s)),
     checked_new lib (\<lambda>s. HYPRE_StructVectorCreate (m_comm s) (m_grid s)) (\<lambda>h s. s\<lparr>m_x := h\<rparr>),
     checked lib (\<lambda>s. HYPRE_StructVectorInitialize (m_x s)),
     checked lib (\<lambda>s. HYPRE_StructVectorSetBoxValues (m_x s) (m_lower s) (m_upper s) (zero_values gs n)),
     checked lib (\<lambda>s. HYPRE_StructVectorAssemble (m_x s))]"
  have unfolded: "HypreStructuredSolver lib layout False w = run (L1 @ L2) w0"
    by (simp add: HypreStructuredSolver_def Let_def run_assign_Cons run_cond_Cons run_run_Cons
        L1_def L2_def w0_def n_def gs_def del: run.simps)
  define w5 where "w5 = snd (run L1 w0)"
  have ok1: "fst (run L1 w0) = None"
    using ok unfolding unfolded by (simp add: run_append split: if_splits)
  have w': "w' = snd (run L2 w5)"
    using ok1 by (simp add: w'_def unfolded run_append w5_def)
  have frame: "ctor_frame w5 w'"
    unfolding w' L2_def by (rule base_ctor_vectors_frame)
  define g where "g = out_handle lib (trace w @ [HYPRE_StructGridCreate (grid_comm layout) (of_nat n)])"
  define lo :: "HYPRE_Int list" where "lo = map (\<lambda>d. scast (min_idx gs (n - d - 1))) [0..<n]"
  define up :: "HYPRE_Int list" where "up = map (\<lambda>d. scast (max_idx gs (n - d - 1) - 1)) [0..<n]"
  have w5: "w5 = w0\<lparr>trace := trace w @
          [HYPRE_StructGridCreate (grid_comm layout) (of_nat n),
           HYPRE_StructGridSetExtents g lo up,
           HYPRE_StructGridSetPeriodic g (periodic_loop layout (replicate n 0))],
        this := (this w0)\<lparr>m_grid := g, m_lower := lo, m_upper := up\<rparr>\<rparr>"
    using ok1 unfolding w5_def L1_def
    by (simp add: run_steps set_extents_loop_eq w0_def g_def lo_def up_def del: run.simps(2))
  show ?thesis
    using frame by (auto simp: ctor_frame_def w5 w0_def lo_def up_def)
qed


section \<open>What the derived constructors do\<close>

lemma run_throw_Cons: "run (throw e # fs) w = (Some e, w)"
  by (simp add: throw_def)

lemma run_unchecked_Cons:
  "run (unchecked_call lib c # fs) w = run fs (w\<lparr>trace := trace w @ [c (this w)]\<rparr>)"
  by (simp add: unchecked_call_def)

lemma fst_unwinding: "fst (unwinding body dtor w) = None \<longleftrightarrow> fst (body w) = None"
  by (cases "body w") (auto simp: unwinding_def split: option.splits)

lemma unwinding_ok: "fst (body w) = None \<Longrightarrow> unwinding body dtor w = body w"
  by (cases "body w") (auto simp: unwinding_def split: option.splits)

lemma fst_unwinding_Some: "fst (unwinding body dtor w) = fst (body w)"
  by (cases "body w") (auto simp: unwinding_def split: option.splits)

lemma fst_run_Cons:
  "fst (run (f # fs) w) = None \<longleftrightarrow> fst (f w) = None \<and> fst (run fs (snd (f w))) = None"
  by (cases "f w") (auto split: option.splits)

lemma derived_ctor_split:
  assumes "fst (run [base, unwinding body dtor] w) = None"
  shows "fst (base w) = None \<and> fst (body (snd (base w))) = None
         \<and> snd (run [base, unwinding body dtor] w) = snd (body (snd (base w)))"
proof -
  have b: "fst (base w) = None" and u: "fst (unwinding body dtor (snd (base w))) = None"
    using assms by (simp_all add: fst_run_Cons del: run.simps)
  from u have "fst (body (snd (base w))) = None" by (simp add: fst_unwinding)
  then show ?thesis using b by (simp add: run_Cons_if unwinding_ok del: run.simps(2))
qed

lemmas body_steps = run_steps run_throw_Cons run_unchecked_Cons

lemma constructor_success:
  fixes lib :: "'h::zero hypre_lib" and w :: "('v, 'h) state" and layout :: array_layout
  assumes "fst (constructor_of k lib layout p w) = None"
  shows "guard_admits k p \<and> fst (HypreStructuredSolver lib layout p w) = None
       \<and> ctor_frame (snd (HypreStructuredSolver lib layout p w)) (snd (constructor_of k lib layout p w))
       \<and> dyn_class (this (snd (constructor_of k lib layout p w))) = k"
proof (cases k)
  case PCG
  from assms [unfolded PCG constructor_of.simps HypreStructPCG_def, THEN derived_ctor_split]
  show ?thesis unfolding PCG constructor_of.simps HypreStructPCG_def
    by (cases p) (simp_all add: body_steps ctor_frame_def del: run.simps(2))
next
  case GMRES
  from assms [unfolded GMRES constructor_of.simps HypreStructGMRES_def, THEN derived_ctor_split]
  show ?thesis unfolding GMRES constructor_of.simps HypreStructGMRES_def
    by (cases p) (simp_all add: body_steps ctor_frame_def del: run.simps(2))
next
  case BiCGSTAB
  from assms [unfolded BiCGSTAB constructor_of.simps HypreStructBiCGSTAB_def, THEN derived_ctor_split]
  show ?thesis unfolding BiCGSTAB constructor_of.simps HypreStructBiCGSTAB_def
    by (cases p) (simp_all add: body_steps ctor_frame_def del: run.simps(2))
next
  case PFMG
  from assms [unfolded PFMG constructor_of.simps HypreStructPFMG_def, THEN derived_ctor_split]
  show ?thesis unfolding PFMG constructor_of.simps HypreStructPFMG_def
    by (cases p) (simp_all add: body_steps ctor_frame_def del: run.simps(2))
next
  case SMG
  from assms [unfolded SMG constructor_of.simps HypreStructSMG_def, THEN derived_ctor_split]
  show ?thesis unfolding SMG constructor_of.simps HypreStructSMG_def
    by (cases p) (simp_all add: body_steps ctor_frame_def del: run.simps(2))
next
  case Jacobi
  from assms [unfolded Jacobi constructor_of.simps HypreStructJacobi_def, THEN derived_ctor_split]
  show ?thesis unfolding Jacobi constructor_of.simps HypreStructJacobi_def
    by (cases p) (simp_all add: body_steps ctor_frame_def del: run.simps(2))
next
  case Diagonal
  from assms [unfolded Diagonal constructor_of.simps HypreStructDiagonal_def, THEN derived_ctor_split]
  show ?thesis unfolding Diagonal constructor_of.simps HypreStructDiagonal_def
    by (cases p) (simp_all add: body_steps ctor_frame_def del: run.simps(2))
qed


section \<open>When construction succeeds\<close>

lemma base_ctor_preconditioner:
  fixes layout :: array_layout
  shows "HypreStructuredSolver lib layout True w =
     (None, w\<lparr>this := (this w)\<lparr>m_comm := grid_comm layout, m_is_preconditioner := True,
                        m_lower := [], m_upper := [], m_preconditioner := None\<rparr>\<rparr>)"
  by (simp add: HypreStructuredSolver_def Let_def run_assign_Cons run_cond_Cons del: run.simps(2))

lemma base_ctor_flag:
  fixes layout :: array_layout
  assumes "fst (HypreStructuredSolver lib layout p w) = None"
  shows "m_is_preconditioner (this (snd (HypreStructuredSolver lib layout p w))) = p"
proof (cases p)
  case True
  then show ?thesis by (simp add: base_ctor_preconditioner)
next
  case False
  then show ?thesis using base_ctor_grid [of lib layout w] assms by simp
qed

lemma always_ok_checked:
  "(\<And>tr. sint (return_code lib tr) \<le> 0) \<Longrightarrow> fst (checked lib c w) = None"
  by (simp add: fst_checked)

lemma always_ok_checked_new:
  "(\<And>tr. sint (return_code lib tr) \<le> 0) \<Longrightarrow> fst (checked_new lib c st w) = None"
  by (simp add: fst_checked_new)

lemma fst_assign [simp]: "fst (assign f w) = None"
  by (simp add: assign_def)

lemma fst_unchecked_call [simp]: "fst (unchecked_call lib c w) = None"
  by (simp add: unchecked_call_def)

lemma fst_cond: "fst (cond c f w) = None \<longleftrightarrow> (c (this w) \<longrightarrow> fst (f w) = None)"
  by (simp add: cond_def)

lemma run_ok_all:
  "list_all (\<lambda>f. \<forall>w. fst (f w) = None) fs \<Longrightarrow> fst (run fs w) = None"
  by (rule run_ok) (simp add: list_all_iff)

lemma base_ctor_ok:
  fixes layout :: array_layout
  assumes "\<And>tr. sint (return_code lib tr) \<le> 0"
  shows "fst (HypreStructuredSolver lib layout p w) = None"
  by (simp add: HypreStructuredSolver_def Let_def run_ok_all fst_cond fst_checked fst_checked_new
      assms del: run.simps)

lemma derived_ctor_fst:
  "fst (base w) = None \<Longrightarrow>
   fst (run [base, unwinding body dtor] w) = fst (body (snd (base w)))"
  by (cases "fst (body (snd (base w)))")
     (simp_all add: run_Cons_if fst_unwinding fst_unwinding_Some del: run.simps(2))

lemma constructor_ok:
  fixes layout :: array_layout
  assumes ok: "\<And>tr. sint (return_code lib tr) \<le> 0" and "guard_admits k p"
  shows "fst (constructor_of k lib layout p w) = None"
  using assms(2)
  by (cases k)
     (simp_all add: HypreStructPCG_def HypreStructGMRES_def HypreStructBiCGSTAB_def
        HypreStructPFMG_def HypreStructSMG_def HypreStructJacobi_def HypreStructDiagonal_def
        derived_ctor_fst base_ctor_ok [OF ok] run_ok_all fst_cond fst_checked fst_checked_new ok
        del: run.simps)

lemma constructor_refused:
  fixes layout :: array_layout
  assumes nok: "\<not> guard_admits k p"
    and base: "fst (HypreStructuredSolver lib layout p w) = None"
  shows "fst (constructor_of k lib layout p w) = Some (logic_error (refusal k))"
  using nok base
  by (cases k)
     (simp_all add: HypreStructPCG_def HypreStructGMRES_def HypreStructBiCGSTAB_def
        HypreStructDiagonal_def derived_ctor_fst run_assign_Cons run_cond_Cons
        run_throw_Cons del: run.simps)

section \<open>What the factory builds\<close>

lemma factory_dispatch:
  fixes layout :: array_layout
  shows "createHypreStructuredSolver lib (solver_type_of k) layout p w = constructor_of k lib layout p w"
  by (cases k)
     (simp_all add: createHypreStructuredSolver_def createHypreStructPCG_def
        createHypreStructGMRES_def createHypreStructBiCGSTAB_def createHypreStructPFMG_def
        createHypreStructSMG_def createHypreStructJacobi_def createHypreStructDiagonal_def)

lemma solver_type_of_known:
  "solver_type_of k \<in> set [''PCG'', ''GMRES'', ''BiCGSTAB'', ''PFMG'', ''SMG'', ''Jacobi'', ''Diagonal'']"
  by (cases k) simp_all

lemma known_solver_type:
  assumes "solver_type \<in> set [''PCG'', ''GMRES'', ''BiCGSTAB'', ''PFMG'', ''SMG'', ''Jacobi'', ''Diagonal'']"
  shows "\<exists>k. solver_type = solver_type_of k"
proof -
  from assms have "solver_type = solver_type_of PCG \<or> solver_type = solver_type_of GMRES
     \<or> solver_type = solver_type_of BiCGSTAB \<or> solver_type = solver_type_of PFMG
     \<or> solver_type = solver_type_of SMG \<or> solver_type = solver_type_of Jacobi
     \<or> solver_type = solver_type_of Diagonal"
    by simp
  then show ?thesis by blast
qed

lemma factory_invalid:
  fixes layout :: array_layout
  assumes "solver_type \<notin> set [''PCG'', ''GMRES'', ''BiCGSTAB'', ''PFMG'', ''SMG'', ''Jacobi'', ''Diagonal'']"
  shows "createHypreStructuredSolver lib solver_type layout p w =
           (Some (runtime_error ''Invalid solver type''), w)"
  using assms by (auto simp: createHypreStructuredSolver_def throw_def)




lemma length_fold_update:
  "length (fold (\<lambda>d p. p[h d := g d]) ds p) = length p"
  by (induction ds arbitrary: p) simp_all

lemma periodic_fold_nth:
  "length p = n \<Longrightarrow> k \<le> n \<Longrightarrow> i < n \<Longrightarrow>
   fold (\<lambda>d p. p[n - 1 - d := g d]) [0..<k] p ! i = (if n - k \<le> i then g (n - 1 - i) else p ! i)"
proof (induction k)
  case 0
  then show ?case by simp
next
  case (Suc k)
  let ?q = "fold (\<lambda>d p. p[n - 1 - d := g d]) [0..<k] p"
  have len: "length ?q = n" using Suc.prems by (simp add: length_fold_update)
  have ih: "?q ! i = (if n - k \<le> i then g (n - 1 - i) else p ! i)"
    using Suc by simp
  have step: "fold (\<lambda>d p. p[n - 1 - d := g d]) [0..<Suc k] p = ?q[n - 1 - k := g k]"
    by simp
  show ?case
  proof (cases "i = n - 1 - k")
    case True
    then have "n - 1 - i = k" using Suc.prems by arith
    with True len Suc.prems show ?thesis unfolding step by simp
  next
    case False
    then have "(n - Suc k \<le> i) = (n - k \<le> i)" using Suc.prems by arith
    with False ih show ?thesis unfolding step by simp
  qed
qed

lemma periodic_loop_nth:
  fixes layout :: array_layout
  assumes "length init = num_space_dim layout" "d < num_space_dim layout"
  shows "periodic_loop layout init ! (num_space_dim layout - 1 - d) =
           (if isPeriodic layout d then globalNumEntity layout d else 0)"
proof -
  have "num_space_dim layout - 1 - (num_space_dim layout - 1 - d) = d"
    using assms(2) by arith
  then show ?thesis
    using assms periodic_fold_nth [of init "num_space_dim layout" "num_space_dim layout"
        "num_space_dim layout - 1 - d" "\<lambda>d. if isPeriodic layout d then globalNumEntity layout d else 0"]
    by (simp add: periodic_loop_def)
qed

lemma length_periodic_loop:
  fixes layout :: array_layout
  shows "length (periodic_loop layout init) = length init"
  by (simp add: periodic_loop_def length_fold_update)

lemma sint_cast_long:
  fixes x :: "64 word"
  assumes "- (2 ^ 31) \<le> sint x" "sint x < 2 ^ 31"
  shows "sint (scast x :: 32 word) = sint x"
proof -
  have "sint (scast x :: 32 word) = signed_take_bit (LENGTH(32) - 1) (sint x)"
    unfolding scast_eq by (rule sint_sbintrunc')
  also have "\<dots> = sint x"
    by (rule signed_take_bit_int_eq_self) (use assms in simp_all)
  finally show ?thesis .
qed

lemma sint_long_minus_one:
  fixes x :: "64 word"
  assumes "- (2 ^ 63) < sint x"
  shows "sint (x - 1) = sint x - 1"
proof -
  have "sint (x - 1) = signed_take_bit (LENGTH(64) - 1) (sint x - sint (1 :: 64 word))"
    by (rule sint_word_diff)
  also have "\<dots> = signed_take_bit (LENGTH(64) - 1) (sint x - 1)"
    by simp
  also have "\<dots> = sint x - 1"
    by (rule signed_take_bit_int_eq_self) (use assms sint_lt [of x] in simp_all)
  finally show ?thesis .
qed

lemma constructed_solver_grid:
  fixes lib :: "'h::zero hypre_lib" and w :: "('v, 'h) state" and layout :: array_layout
  assumes ok: "fst (createHypreStructuredSolver lib solver_type layout p w) = None"
  defines "w' \<equiv> snd (createHypreStructuredSolver lib solver_type layout p w)"
  defines "n \<equiv> num_space_dim layout"
  defines "gs \<equiv> indexSpace_Own_Global layout"
  shows "(\<exists>k. solver_type = solver_type_of k \<and> guard_admits k p \<and> dyn_class (this w') = k)
    \<and> m_is_preconditioner (this w') = p \<and> mem w' = mem w \<and> next_addr w' = next_addr w
    \<and> m_comm (this w') = grid_comm layout \<and> m_preconditioner (this w') = None
    \<and> (\<not> p \<longrightarrow>
        m_lower (this w') = map (\<lambda>d. scast (min_idx gs (n - d - 1))) [0..<n]
      \<and> m_upper (this w') = map (\<lambda>d. scast (max_idx gs (n - d - 1) - 1)) [0..<n]
      \<and> (\<exists>r. trace w' = trace w @
          [HYPRE_StructGridCreate (grid_comm layout) (of_nat n),
           HYPRE_StructGridSetExtents (m_grid (this w')) (m_lower (this w')) (m_upper (this w')),
           HYPRE_StructGridSetPeriodic (m_grid (this w')) (periodic_loop layout (replicate n 0))] @ r))"
proof -
  have "solver_type \<in> set [''PCG'', ''GMRES'', ''BiCGSTAB'', ''PFMG'', ''SMG'', ''Jacobi'', ''Diagonal'']"
    using ok factory_invalid [of solver_type lib layout p w] by (cases ?thesis) auto
  then obtain k where k: "solver_type = solver_type_of k"
    using known_solver_type by blast
  have eq: "createHypreStructuredSolver lib solver_type layout p w = constructor_of k lib layout p w"
    by (simp add: k factory_dispatch)
  define w1 where "w1 = snd (HypreStructuredSolver lib layout p w)"
  from ok have c: "guard_admits k p" "fst (HypreStructuredSolver lib layout p w) = None"
    "ctor_frame w1 w'" "dyn_class (this w') = k"
    using constructor_success [of k lib layout p w] by (simp_all add: eq w'_def w1_def)
  have flag: "m_is_preconditioner (this w1) = p"
    unfolding w1_def using c(2) by (rule base_ctor_flag)
  show ?thesis
  proof (cases p)
    case True
    then show ?thesis
      using c k flag by (auto simp: ctor_frame_def w1_def base_ctor_preconditioner)
  next
    case False
    from c(2) base_ctor_grid [of lib layout w] False
    have "m_comm (this w1) = grid_comm layout \<and> m_preconditioner (this w1) = None
      \<and> m_lower (this w1) = map (\<lambda>d. scast (min_idx gs (n - d - 1))) [0..<n]
      \<and> m_upper (this w1) = map (\<lambda>d. scast (max_idx gs (n - d - 1) - 1)) [0..<n]
      \<and> (\<exists>r. trace w1 = trace w @
          [HYPRE_StructGridCreate (grid_comm layout) (of_nat n),
           HYPRE_StructGridSetExtents (m_grid (this w1)) (m_lower (this w1)) (m_upper (this w1)),
           HYPRE_StructGridSetPeriodic (m_grid (this w1)) (periodic_loop layout (replicate n 0))] @ r)
      \<and> mem w1 = mem w \<and> next_addr w1 = next_addr w"
      by (auto simp: w1_def n_def gs_def)
    then show ?thesis
      using c k flag False by (auto simp: ctor_frame_def)
  qed
qed

section \<open>The factory\<close>

lemma hypre_ok_always: "sint (return_code hypre_ok tr) \<le> 0"
  by (simp add: hypre_ok_def)

text \<open>
  C1, as the code has it. For every string \<open>solver_type\<close>: when it is none of the seven
  names, \<open>createHypreStructuredSolver\<close> throws \<^verbatim>\<open>std::runtime_error\<close> with the message
  "Invalid solver type" and does nothing else. When it is the name of class \<open>k\<close>, the
  factory runs the constructor of \<open>k\<close>; a solver it returns has class \<open>k\<close> and the role
  asked for, and it can only be returned in a role the constructor's guard admits (not a
  preconditioner for PCG, GMRES and BiCGSTAB, a preconditioner for Diagonal). When HYPRE
  reports no error, the factory returns the solver in every admitted role and throws
  the constructor's \<^verbatim>\<open>std::logic_error\<close> in every other.
\<close>

theorem createHypreStructuredSolver_dispatch:
  fixes lib :: "'h::zero hypre_lib" and w :: "('v, 'h) state" and layout :: array_layout
  shows "(solver_type \<notin> set [''PCG'', ''GMRES'', ''BiCGSTAB'', ''PFMG'', ''SMG'', ''Jacobi'', ''Diagonal''] \<longrightarrow>
            createHypreStructuredSolver lib solver_type layout p w =
              (Some (runtime_error ''Invalid solver type''), w))
       \<and> (solver_type \<in> set [''PCG'', ''GMRES'', ''BiCGSTAB'', ''PFMG'', ''SMG'', ''Jacobi'', ''Diagonal''] \<longleftrightarrow>
            (\<exists>k. solver_type = solver_type_of k))
       \<and> (solver_type = solver_type_of k \<longrightarrow>
            createHypreStructuredSolver lib solver_type layout p w = constructor_of k lib layout p w
          \<and> (fst (createHypreStructuredSolver lib solver_type layout p w) = None \<longrightarrow>
               guard_admits k p
             \<and> dyn_class (this (snd (createHypreStructuredSolver lib solver_type layout p w))) = k
             \<and> m_is_preconditioner (this (snd (createHypreStructuredSolver lib solver_type layout p w))) = p)
          \<and> ((\<forall>tr. sint (return_code lib tr) \<le> 0) \<longrightarrow>
               (guard_admits k p \<longrightarrow> fst (createHypreStructuredSolver lib solver_type layout p w) = None)
             \<and> (\<not> guard_admits k p \<longrightarrow>
                  fst (createHypreStructuredSolver lib solver_type layout p w) =
                    Some (logic_error (refusal k)))))"
proof (intro conjI impI)
  assume "solver_type \<notin> set [''PCG'', ''GMRES'', ''BiCGSTAB'', ''PFMG'', ''SMG'', ''Jacobi'', ''Diagonal'']"
  then show "createHypreStructuredSolver lib solver_type layout p w =
              (Some (runtime_error ''Invalid solver type''), w)"
    by (rule factory_invalid)
next
  show "solver_type \<in> set [''PCG'', ''GMRES'', ''BiCGSTAB'', ''PFMG'', ''SMG'', ''Jacobi'', ''Diagonal''] \<longleftrightarrow>
            (\<exists>k. solver_type = solver_type_of k)"
    using known_solver_type solver_type_of_known by blast
next
  assume k: "solver_type = solver_type_of k"
  show "createHypreStructuredSolver lib solver_type layout p w = constructor_of k lib layout p w"
    by (simp add: k factory_dispatch)
  {
    assume ok: "fst (createHypreStructuredSolver lib solver_type layout p w) = None"
    from constructed_solver_grid [OF ok]
    obtain k' where k': "solver_type = solver_type_of k'" "guard_admits k' p"
        "dyn_class (this (snd (createHypreStructuredSolver lib solver_type layout p w))) = k'"
      and flag: "m_is_preconditioner (this (snd (createHypreStructuredSolver lib solver_type layout p w))) = p"
      by blast
    have "k' = k" using k k'(1) by (cases k; cases k') simp_all
    with k' flag show "guard_admits k p"
      "dyn_class (this (snd (createHypreStructuredSolver lib solver_type layout p w))) = k"
      "m_is_preconditioner (this (snd (createHypreStructuredSolver lib solver_type layout p w))) = p"
      by simp_all
  }
  {
    assume all: "\<forall>tr. sint (return_code lib tr) \<le> 0"
    then have ok: "\<And>tr. sint (return_code lib tr) \<le> 0" by simp
    show "fst (createHypreStructuredSolver lib solver_type layout p w) = None" if "guard_admits k p"
      using constructor_ok [of lib k p layout w] ok that by (simp add: k factory_dispatch)
    show "fst (createHypreStructuredSolver lib solver_type layout p w) = Some (logic_error (refusal k))"
      if "\<not> guard_admits k p"
      using constructor_refused [OF that base_ctor_ok, of lib layout w] ok
      by (simp add: k factory_dispatch)
  }
qed

theorem createHypreStructuredSolver_dispatch_witness:
  "createHypreStructuredSolver hypre_ok ''LU'' layout_3d False empty_state =
     (Some (runtime_error ''Invalid solver type''), empty_state)
   \<and> fst (createHypreStructuredSolver hypre_ok ''SMG'' layout_3d True empty_state) = None
   \<and> dyn_class (this (snd (createHypreStructuredSolver hypre_ok ''SMG'' layout_3d True empty_state))) = SMG
   \<and> m_is_preconditioner (this (snd (createHypreStructuredSolver hypre_ok ''SMG'' layout_3d True empty_state)))
   \<and> fst (createHypreStructuredSolver hypre_ok ''GMRES'' layout_3d True empty_state) =
       Some (logic_error ''HYPRE GMRES cannot be used as a preconditioner'')"
proof -
  have invalid: "''LU'' \<notin> set [''PCG'', ''GMRES'', ''BiCGSTAB'', ''PFMG'', ''SMG'', ''Jacobi'', ''Diagonal'']"
    by simp
  have smg: "''SMG'' = solver_type_of SMG" "guard_admits SMG True" by simp_all
  have gmres: "''GMRES'' = solver_type_of GMRES" "\<not> guard_admits GMRES True" by simp_all
  have ok: "\<forall>tr. sint (return_code hypre_ok tr) \<le> 0" by (simp add: hypre_ok_def)
  note d1 = createHypreStructuredSolver_dispatch [of "''LU''" hypre_ok layout_3d False empty_state SMG]
  note d2 = createHypreStructuredSolver_dispatch [of "''SMG''" hypre_ok layout_3d True empty_state SMG]
  note d3 = createHypreStructuredSolver_dispatch [of "''GMRES''" hypre_ok layout_3d True empty_state GMRES]
  have 1: "createHypreStructuredSolver hypre_ok ''LU'' layout_3d False empty_state =
     (Some (runtime_error ''Invalid solver type''), empty_state)"
    using d1 invalid by blast
  have 2: "fst (createHypreStructuredSolver hypre_ok ''SMG'' layout_3d True empty_state) = None"
    using d2 smg ok by blast
  have 3: "dyn_class (this (snd (createHypreStructuredSolver hypre_ok ''SMG'' layout_3d True empty_state))) = SMG
     \<and> m_is_preconditioner (this (snd (createHypreStructuredSolver hypre_ok ''SMG'' layout_3d True empty_state))) = True"
    using d2 smg(1) 2 by blast
  have 4: "fst (createHypreStructuredSolver hypre_ok ''GMRES'' layout_3d True empty_state) =
       Some (logic_error (refusal GMRES))"
    using d3 gmres ok by blast
  show ?thesis using 1 2 3 4 by simp
qed

text \<open>
  C1 as stated fails: two of the seven names, each with a role its constructor
  refuses, give a \<^verbatim>\<open>std::logic_error\<close> and no solver, the first of them with the
  default \<open>is_preconditioner = false\<close>.
\<close>

theorem createHypreStructuredSolver_known_name_counterexample:
  "fst (createHypreStructuredSolver hypre_ok ''Diagonal'' layout_3d False empty_state) =
     Some (logic_error ''Diagonal preconditioner cannot be used as a solver'')
   \<and> fst (createHypreStructuredSolver hypre_ok ''PCG'' layout_3d True empty_state) =
     Some (logic_error ''HYPRE PCG cannot be used as a preconditioner'')"
proof -
  have "fst (constructor_of Diagonal hypre_ok layout_3d False empty_state) =
          Some (logic_error (refusal Diagonal))"
    by (rule constructor_refused) (simp_all add: base_ctor_ok hypre_ok_always)
  moreover have "fst (constructor_of PCG hypre_ok layout_3d True empty_state) =
          Some (logic_error (refusal PCG))"
    by (rule constructor_refused) (simp_all add: base_ctor_ok hypre_ok_always)
  moreover have "createHypreStructuredSolver hypre_ok ''Diagonal'' layout_3d False empty_state
      = constructor_of Diagonal hypre_ok layout_3d False empty_state"
    using factory_dispatch [of hypre_ok Diagonal layout_3d False empty_state] by simp
  moreover have "createHypreStructuredSolver hypre_ok ''PCG'' layout_3d True empty_state
      = constructor_of PCG hypre_ok layout_3d True empty_state"
    using factory_dispatch [of hypre_ok PCG layout_3d True empty_state] by simp
  ultimately show ?thesis
    by (simp only: refusal.simps fst_conv)
qed

text \<open>
  C2, as the code has it. With \<open>is_preconditioner = false\<close> the factory builds each of
  PCG, GMRES, BiCGSTAB, PFMG, SMG and Jacobi without throwing when HYPRE reports no
  error, and the object is not a preconditioner. For "Diagonal" it never returns a
  solver, and when HYPRE reports no error it throws \<^verbatim>\<open>std::logic_error\<close>
  ("Diagonal preconditioner cannot be used as a solver").
\<close>

theorem outer_solver_construction:
  fixes lib :: "'h::zero hypre_lib" and w :: "('v, 'h) state" and layout :: array_layout
  shows "fst (createHypreStructuredSolver lib ''Diagonal'' layout False w) \<noteq> None
       \<and> ((\<forall>tr. sint (return_code lib tr) \<le> 0) \<longrightarrow>
            (\<forall>solver_type \<in> set [''PCG'', ''GMRES'', ''BiCGSTAB'', ''PFMG'', ''SMG'', ''Jacobi''].
               fst (createHypreStructuredSolver lib solver_type layout False w) = None
             \<and> \<not> m_is_preconditioner (this (snd (createHypreStructuredSolver lib solver_type layout False w))))
          \<and> fst (createHypreStructuredSolver lib ''Diagonal'' layout False w) =
               Some (logic_error ''Diagonal preconditioner cannot be used as a solver''))"
proof (intro conjI impI ballI)
  show "fst (createHypreStructuredSolver lib ''Diagonal'' layout False w) \<noteq> None"
  proof
    assume "fst (createHypreStructuredSolver lib ''Diagonal'' layout False w) = None"
    from constructed_solver_grid [OF this]
    obtain k where "''Diagonal'' = solver_type_of k" "guard_admits k False" by blast
    then show False by (cases k) simp_all
  qed
next
  assume all: "\<forall>tr. sint (return_code lib tr) \<le> 0"
  then have ok: "\<And>tr. sint (return_code lib tr) \<le> 0" by simp
  have eq: "createHypreStructuredSolver lib ''Diagonal'' layout False w
      = constructor_of Diagonal lib layout False w"
    using factory_dispatch [of lib Diagonal layout False w] by simp
  have "fst (constructor_of Diagonal lib layout False w) = Some (logic_error (refusal Diagonal))"
    by (rule constructor_refused) (simp_all add: base_ctor_ok ok)
  then show "fst (createHypreStructuredSolver lib ''Diagonal'' layout False w) =
               Some (logic_error ''Diagonal preconditioner cannot be used as a solver'')"
    unfolding eq by simp
  fix solver_type
  assume "solver_type \<in> set [''PCG'', ''GMRES'', ''BiCGSTAB'', ''PFMG'', ''SMG'', ''Jacobi'']"
  then have "solver_type = solver_type_of PCG \<or> solver_type = solver_type_of GMRES
     \<or> solver_type = solver_type_of BiCGSTAB \<or> solver_type = solver_type_of PFMG
     \<or> solver_type = solver_type_of SMG \<or> solver_type = solver_type_of Jacobi"
    by simp
  then obtain k where k: "solver_type = solver_type_of k" "guard_admits k False"
    by (elim disjE) (rule that, assumption, simp)+
  show success: "fst (createHypreStructuredSolver lib solver_type layout False w) = None"
    using constructor_ok [of lib k False layout w] ok k by (simp add: factory_dispatch)
  show "\<not> m_is_preconditioner (this (snd (createHypreStructuredSolver lib solver_type layout False w)))"
    using constructed_solver_grid [OF success] by simp
qed

theorem outer_solver_construction_witness:
  "fst (createHypreStructuredSolver hypre_ok ''Jacobi'' layout_3d False empty_state) = None
   \<and> \<not> m_is_preconditioner (this (snd (createHypreStructuredSolver hypre_ok ''Jacobi'' layout_3d False empty_state)))
   \<and> fst (createHypreStructuredSolver hypre_ok ''PCG'' layout_3d False empty_state) = None"
proof -
  have ok: "\<forall>tr. sint (return_code hypre_ok tr) \<le> 0" by (simp add: hypre_ok_def)
  show ?thesis
    using outer_solver_construction [of hypre_ok layout_3d empty_state] ok by simp
qed

text \<open>
  C2 as stated fails for the seventh name: built as an outer solver, the diagonal
  preconditioner throws.
\<close>

theorem diagonal_outer_solver_counterexample:
  "fst (createHypreStructuredSolver hypre_ok ''Diagonal'' layout_3d False empty_state) \<noteq> None"
proof
  assume "fst (createHypreStructuredSolver hypre_ok ''Diagonal'' layout_3d False empty_state) = None"
  from constructed_solver_grid [OF this]
  obtain k where "''Diagonal'' = solver_type_of k" "guard_admits k False" by blast
  then show False by (cases k) simp_all
qed

section \<open>The grid handed to HYPRE\<close>

text \<open>
  C3: for every solver built with \<open>is_preconditioner = false\<close>, whatever its class, the
  constructor hands the grid extents to HYPRE in reversed dimension order. \<^verbatim>\<open>_lower\<close>
  and \<^verbatim>\<open>_upper\<close> have one entry per spatial dimension; entry \<open>d\<close> of \<^verbatim>\<open>_lower\<close> is the
  minimum of the owned global index space in dimension \<open>num_space_dim - d - 1\<close>, and
  entry \<open>d\<close> of \<^verbatim>\<open>_upper\<close> is the maximum there minus one (the last index, not a
  past-the-end bound), both converted to \<^verbatim>\<open>HYPRE_Int\<close>; where the bound fits 32 bits
  the entries are these very numbers. The second HYPRE call of the constructor is
  \<^verbatim>\<open>HYPRE_StructGridSetExtents\<close> on the new grid with these two arrays.
\<close>

theorem constructor_sets_grid_extents:
  fixes lib :: "'h::zero hypre_lib" and w :: "('v, 'h) state" and layout :: array_layout
  assumes ok: "fst (createHypreStructuredSolver lib solver_type layout False w) = None"
    and d: "d < num_space_dim layout"
  defines "w' \<equiv> snd (createHypreStructuredSolver lib solver_type layout False w)"
  defines "n \<equiv> num_space_dim layout"
  defines "global_space \<equiv> indexSpace_Own_Global layout"
  shows "length (m_lower (this w')) = n \<and> length (m_upper (this w')) = n
    \<and> m_lower (this w') ! d = scast (min_idx global_space (n - d - 1))
    \<and> m_upper (this w') ! d = scast (max_idx global_space (n - d - 1) - 1)
    \<and> (- (2 ^ 31) \<le> sint (min_idx global_space (n - d - 1))
         \<and> sint (min_idx global_space (n - d - 1)) < 2 ^ 31 \<longrightarrow>
       sint (m_lower (this w') ! d) = sint (min_idx global_space (n - d - 1)))
    \<and> (- (2 ^ 31) < sint (max_idx global_space (n - d - 1))
         \<and> sint (max_idx global_space (n - d - 1)) \<le> 2 ^ 31 \<longrightarrow>
       sint (m_upper (this w') ! d) = sint (max_idx global_space (n - d - 1)) - 1)
    \<and> (\<exists>after. trace w' = trace w @
          [HYPRE_StructGridCreate (grid_comm layout) (of_nat n),
           HYPRE_StructGridSetExtents (m_grid (this w')) (m_lower (this w')) (m_upper (this w'))] @ after)"
proof -
  from constructed_solver_grid [OF ok]
  have lo: "m_lower (this w') = map (\<lambda>d. scast (min_idx global_space (n - d - 1))) [0..<n]"
    and up: "m_upper (this w') = map (\<lambda>d. scast (max_idx global_space (n - d - 1) - 1)) [0..<n]"
    and tr: "\<exists>r. trace w' = trace w @
          [HYPRE_StructGridCreate (grid_comm layout) (of_nat n),
           HYPRE_StructGridSetExtents (m_grid (this w')) (m_lower (this w')) (m_upper (this w')),
           HYPRE_StructGridSetPeriodic (m_grid (this w')) (periodic_loop layout (replicate n 0))] @ r"
    by (auto simp: w'_def n_def global_space_def)
  have dn: "d < n" using d by (simp add: n_def)
  have lod: "m_lower (this w') ! d = scast (min_idx global_space (n - d - 1))"
    and upd: "m_upper (this w') ! d = scast (max_idx global_space (n - d - 1) - 1)"
    using dn by (simp_all add: lo up)
  have los: "sint (m_lower (this w') ! d) = sint (min_idx global_space (n - d - 1))"
    if "- (2 ^ 31) \<le> sint (min_idx global_space (n - d - 1))"
       "sint (min_idx global_space (n - d - 1)) < 2 ^ 31"
    unfolding lod using that by (rule sint_cast_long)
  have ups: "sint (m_upper (this w') ! d) = sint (max_idx global_space (n - d - 1)) - 1"
    if a: "- (2 ^ 31) < sint (max_idx global_space (n - d - 1))"
       and b: "sint (max_idx global_space (n - d - 1)) \<le> 2 ^ 31"
  proof -
    let ?mx = "max_idx global_space (n - d - 1)"
    have m: "sint (?mx - 1) = sint ?mx - 1"
      by (rule sint_long_minus_one) (use a in simp)
    have "sint (m_upper (this w') ! d) = sint (scast (?mx - 1) :: HYPRE_Int)"
      by (simp only: upd)
    also have "\<dots> = sint (?mx - 1)"
    proof (rule sint_cast_long)
      show "- (2 ^ 31) \<le> sint (?mx - 1)" unfolding m using a by linarith
      show "sint (?mx - 1) < 2 ^ 31" unfolding m using b by linarith
    qed
    also note m
    finally show ?thesis .
  qed
  from tr obtain r where "trace w' = trace w @
          [HYPRE_StructGridCreate (grid_comm layout) (of_nat n),
           HYPRE_StructGridSetExtents (m_grid (this w')) (m_lower (this w')) (m_upper (this w')),
           HYPRE_StructGridSetPeriodic (m_grid (this w')) (periodic_loop layout (replicate n 0))] @ r"
    ..
  then have tr2: "\<exists>after. trace w' = trace w @
          [HYPRE_StructGridCreate (grid_comm layout) (of_nat n),
           HYPRE_StructGridSetExtents (m_grid (this w')) (m_lower (this w')) (m_upper (this w'))] @ after"
    by simp
  have len: "length (m_lower (this w')) = n" "length (m_upper (this w')) = n"
    by (simp_all add: lo up)
  show ?thesis using len lod upd los ups tr2 by blast
qed

theorem constructor_sets_grid_extents_witness:
  "fst (createHypreStructuredSolver hypre_ok ''PCG'' layout_3d False empty_state) = None
   \<and> (0::nat) < num_space_dim layout_3d
   \<and> m_lower (this (snd (createHypreStructuredSolver hypre_ok ''PCG'' layout_3d False empty_state))) ! 0 = 8
   \<and> m_upper (this (snd (createHypreStructuredSolver hypre_ok ''PCG'' layout_3d False empty_state))) ! 0 = 15
   \<and> sint (m_upper (this (snd (createHypreStructuredSolver hypre_ok ''PCG'' layout_3d False empty_state))) ! 0) = 15"
proof -
  have ok: "fst (createHypreStructuredSolver hypre_ok ''PCG'' layout_3d False empty_state) = None"
    using constructor_ok [of hypre_ok PCG False layout_3d empty_state]
      factory_dispatch [of hypre_ok PCG layout_3d False empty_state]
    by (simp add: hypre_ok_always)
  have d: "0 < num_space_dim layout_3d" by (simp add: layout_3d_def)
  show ?thesis
    using constructor_sets_grid_extents [OF ok d] ok d by (simp add: layout_3d_def)
qed

text \<open>
  C4: for every solver built with \<open>is_preconditioner = false\<close>, the third HYPRE call of
  the constructor is \<^verbatim>\<open>HYPRE_StructGridSetPeriodic\<close> on the new grid with an array of
  one entry per spatial dimension, in reversed order: for every dimension \<open>d\<close>, entry
  \<open>num_space_dim - 1 - d\<close> is the global number of entities in \<open>d\<close> when the grid is
  periodic in \<open>d\<close>, and 0 when it is not.
\<close>

theorem constructor_sets_periodicity:
  fixes lib :: "'h::zero hypre_lib" and w :: "('v, 'h) state" and layout :: array_layout
  assumes ok: "fst (createHypreStructuredSolver lib solver_type layout False w) = None"
    and d: "d < num_space_dim layout"
  defines "w' \<equiv> snd (createHypreStructuredSolver lib solver_type layout False w)"
  defines "n \<equiv> num_space_dim layout"
  defines "periodic \<equiv> periodic_loop layout (replicate (num_space_dim layout) 0)"
  shows "(\<exists>after. trace w' = trace w @
          [HYPRE_StructGridCreate (grid_comm layout) (of_nat n),
           HYPRE_StructGridSetExtents (m_grid (this w')) (m_lower (this w')) (m_upper (this w')),
           HYPRE_StructGridSetPeriodic (m_grid (this w')) periodic] @ after)
    \<and> length periodic = n
    \<and> periodic ! (n - 1 - d) = (if isPeriodic layout d then globalNumEntity layout d else 0)"
proof -
  from constructed_solver_grid [OF ok]
  have "\<exists>r. trace w' = trace w @
          [HYPRE_StructGridCreate (grid_comm layout) (of_nat n),
           HYPRE_StructGridSetExtents (m_grid (this w')) (m_lower (this w')) (m_upper (this w')),
           HYPRE_StructGridSetPeriodic (m_grid (this w')) periodic] @ r"
    by (auto simp: w'_def n_def periodic_def)
  moreover have "length periodic = n"
    by (simp add: periodic_def n_def length_periodic_loop)
  moreover have "periodic ! (n - 1 - d) = (if isPeriodic layout d then globalNumEntity layout d else 0)"
    unfolding periodic_def n_def by (rule periodic_loop_nth) (use d in simp_all)
  ultimately show ?thesis by blast
qed

theorem constructor_sets_periodicity_witness:
  "fst (createHypreStructuredSolver hypre_ok ''PFMG'' layout_3d False empty_state) = None
   \<and> (0::nat) < num_space_dim layout_3d \<and> (1::nat) < num_space_dim layout_3d
   \<and> periodic_loop layout_3d (replicate (num_space_dim layout_3d) 0) ! 2 = 8
   \<and> periodic_loop layout_3d (replicate (num_space_dim layout_3d) 0) ! 1 = 0"
proof -
  have ok: "fst (createHypreStructuredSolver hypre_ok ''PFMG'' layout_3d False empty_state) = None"
    using constructor_ok [of hypre_ok PFMG False layout_3d empty_state]
      factory_dispatch [of hypre_ok PFMG layout_3d False empty_state]
    by (simp add: hypre_ok_always)
  have d0: "0 < num_space_dim layout_3d" and d1: "1 < num_space_dim layout_3d"
    by (simp_all add: layout_3d_def)
  have n: "num_space_dim layout_3d = 3" by (simp add: layout_3d_def)
  have p0: "isPeriodic layout_3d 0" and p1: "\<not> isPeriodic layout_3d (Suc 0)"
    and g0: "globalNumEntity layout_3d 0 = 8"
    by (simp_all add: layout_3d_def)
  show ?thesis
    using constructor_sets_periodicity [OF ok d0] constructor_sets_periodicity [OF ok d1] ok d0 d1
    by (simp add: n p0 p1 g0)
qed

section \<open>setMatrixStencil\<close>

text \<open>
  The loop over the stencil entries ends when the vector has fewer than \<open>2 ^ 32\<close>
  entries, and then it has made one \<^verbatim>\<open>HYPRE_StructStencilSetElement\<close> call per entry
  from the counter on, in order, unless one of them reported an error.
\<close>

lemma unat_Suc_word:
  fixes n :: "32 word"
  assumes "unat n < k" "k < 2 ^ 32"
  shows "unat (n + 1) = Suc (unat n)"
proof -
  have "unat n + unat (1 :: 32 word) < 2 ^ LENGTH(32)"
    using assms by simp
  then have "unat (n + 1) = unat n + unat (1 :: 32 word)"
    by (simp only: unat_add_lem [THEN iffD1])
  then show ?thesis by simp
qed

lemma stencil_loop_result:
  fixes lib :: "'h hypre_lib" and w :: "('v, 'h) state"
  assumes len: "length stencil < 2 ^ 32"
  shows "unat n \<le> length stencil \<Longrightarrow>
    \<exists>r. stencil_loop lib N stencil n w = Some r
       \<and> this (snd r) = this w \<and> mem (snd r) = mem w \<and> next_addr (snd r) = next_addr w
       \<and> (fst r = None \<longrightarrow>
            trace (snd r) = trace w @
              map (\<lambda>i. HYPRE_StructStencilSetElement (m_stencil (this w)) (of_nat i)
                         (map (\<lambda>d. stencil ! i ! d) [0..<N]))
                  [unat n..<length stencil])
       \<and> (\<forall>e. fst r = Some e \<longrightarrow> (\<exists>msg. e = runtime_error msg))
       \<and> (\<exists>r'. trace (snd r) = trace w @ r')
       \<and> ((\<forall>tr. sint (return_code lib tr) \<le> 0) \<longrightarrow> fst r = None)"
proof (induction "length stencil - unat n" arbitrary: n w)
  case 0
  then have "\<not> unat n < length stencil" by simp
  then have "stencil_loop lib N stencil n w = Some (None, w)"
    by (subst stencil_loop.simps) simp
  moreover have "[unat n..<length stencil] = []" using 0 by simp
  ultimately show ?case by simp
next
  case (Suc k)
  then have lt: "unat n < length stencil" by simp
  define c :: "solver \<Rightarrow> 'h hypre_call" where
    "c = (\<lambda>s. HYPRE_StructStencilSetElement (m_stencil s) n (map (\<lambda>d. stencil ! unat n ! d) [0..<N]))"
  have unfold: "stencil_loop lib N stencil n w =
      (case checked lib c w of
         (None, w') \<Rightarrow> stencil_loop lib N stencil (n + 1) w'
       | (Some e, w') \<Rightarrow> Some (Some e, w'))"
    using lt by (subst stencil_loop.simps) (simp add: c_def)
  show ?case
  proof (cases "fst (checked lib c w)")
    case None
    then have rc: "sint (return_code lib (trace w @ [c (this w)])) \<le> 0"
      by (simp add: fst_checked)
    define w' where "w' = w\<lparr>trace := trace w @ [c (this w)]\<rparr>"
    have step: "checked lib c w = (None, w')"
      using rc by (simp add: checked_ok w'_def)
    have suc: "unat (n + 1) = Suc (unat n)"
      using lt len by (rule unat_Suc_word)
    have "k = length stencil - unat (n + 1)" "unat (n + 1) \<le> length stencil"
      using Suc.hyps(2) lt suc by simp_all
    from Suc.hyps(1) [OF this, of w']
    obtain r where all: "stencil_loop lib N stencil (n + 1) w' = Some r
       \<and> this (snd r) = this w' \<and> mem (snd r) = mem w' \<and> next_addr (snd r) = next_addr w'
       \<and> (fst r = None \<longrightarrow>
            trace (snd r) = trace w' @
              map (\<lambda>i. HYPRE_StructStencilSetElement (m_stencil (this w')) (of_nat i)
                         (map (\<lambda>d. stencil ! i ! d) [0..<N]))
                  [unat (n + 1)..<length stencil])
       \<and> (\<forall>e. fst r = Some e \<longrightarrow> (\<exists>msg. e = runtime_error msg))
       \<and> (\<exists>r'. trace (snd r) = trace w' @ r')
       \<and> ((\<forall>tr. sint (return_code lib tr) \<le> 0) \<longrightarrow> fst r = None)"
      by (rule exE)
    note r = all [THEN conjunct1] all [THEN conjunct2, THEN conjunct1]
      all [THEN conjunct2, THEN conjunct2, THEN conjunct1]
      all [THEN conjunct2, THEN conjunct2, THEN conjunct2, THEN conjunct1]
      all [THEN conjunct2, THEN conjunct2, THEN conjunct2, THEN conjunct2, THEN conjunct1]
      all [THEN conjunct2, THEN conjunct2, THEN conjunct2, THEN conjunct2, THEN conjunct2, THEN conjunct1]
      all [THEN conjunct2, THEN conjunct2, THEN conjunct2, THEN conjunct2, THEN conjunct2, THEN conjunct2,
        THEN conjunct1]
      all [THEN conjunct2, THEN conjunct2, THEN conjunct2, THEN conjunct2, THEN conjunct2, THEN conjunct2,
        THEN conjunct2]
    have list: "[unat n..<length stencil] = unat n # [unat (n + 1)..<length stencil]"
      using lt suc by (simp add: upt_conv_Cons)
    have cn: "c (this w) = HYPRE_StructStencilSetElement (m_stencil (this w)) (of_nat (unat n))
                         (map (\<lambda>d. stencil ! unat n ! d) [0..<N])"
      by (simp add: c_def)
    have "stencil_loop lib N stencil n w = Some r"
      by (simp add: unfold step r(1))
    moreover have "fst r = None \<longrightarrow>
            trace (snd r) = trace w @
              map (\<lambda>i. HYPRE_StructStencilSetElement (m_stencil (this w)) (of_nat i)
                         (map (\<lambda>d. stencil ! i ! d) [0..<N]))
                  [unat n..<length stencil]"
      using r(5) by (simp add: list cn w'_def)
    moreover have "\<exists>r'. trace (snd r) = trace w @ r'"
      using r(7) by (auto simp: w'_def)
    ultimately show ?thesis
      using r(2,3,4,6,8) by (simp add: w'_def)
  next
    case (Some e)
    then obtain w' where step: "checked lib c w = (Some e, w')"
      by (cases "checked lib c w") simp
    have "stencil_loop lib N stencil n w = Some (Some e, w')"
      by (simp add: unfold step)
    moreover have "\<exists>msg. e = runtime_error msg"
      using Some by (rule checked_throws)
    moreover have "this w' = this w" "mem w' = mem w" "next_addr w' = next_addr w"
      using checked_frame [of lib c w] by (simp_all add: step)
    moreover have "\<exists>r'. trace w' = trace w @ r'"
      using checked_trace [of lib c w] by (auto simp: step)
    moreover have "\<not> (\<forall>tr. sint (return_code lib tr) \<le> 0)"
      using Some fst_checked [of lib c w] by auto
    ultimately show ?thesis by simp
  qed
qed

lemma run_single: "run [f] w = f w"
  by (cases "f w") (auto split: option.splits)

lemma sint_of_nat_small:
  assumes "n < 2 ^ 31"
  shows "sint (of_nat n :: 32 word) = int n"
proof -
  have "(of_nat n :: 32 word) = word_of_int (int n)"
    by (rule of_int_of_nat_eq [symmetric])
  then have "sint (of_nat n :: 32 word) = signed_take_bit (LENGTH(32) - 1) (int n)"
    by (simp only: sint_sbintrunc')
  also have "\<dots> = int n"
    by (rule signed_take_bit_int_eq_self) (use assms in simp_all)
  finally show ?thesis .
qed

lemma stencil_elements_eq:
  assumes "\<forall>offset \<in> set stencil. length offset = N"
  shows "map (\<lambda>i. HYPRE_StructStencilSetElement h (of_nat i) (map (\<lambda>d. stencil ! i ! d) [0..<N]))
           [0..<length stencil]
       = map (\<lambda>n. HYPRE_StructStencilSetElement h (of_nat n) (stencil ! n)) [0..<length stencil]"
proof (rule map_cong [OF refl])
  fix i assume "i \<in> set [0..<length stencil]"
  then have "length (stencil ! i) = N" using assms by simp
  then have "map (\<lambda>d. stencil ! i ! d) [0..<N] = stencil ! i"
    using map_nth [of "stencil ! i"] by simp
  then show "HYPRE_StructStencilSetElement h (of_nat i) (map (\<lambda>d. stencil ! i ! d) [0..<N])
           = HYPRE_StructStencilSetElement h (of_nat i) (stencil ! i)"
    by simp
qed



text \<open>
  C5: on a solver that is not a preconditioner, for every stencil vector of
  \<open>NumSpaceDim\<close>-dimensional offsets (with fewer than \<open>2 ^ 31\<close> entries, so that its
  length is an \<^verbatim>\<open>int\<close>), \<open>setMatrixStencil\<close> returns; it succeeds when HYPRE reports
  no error, and when it succeeds it has recorded the length of the vector as the
  stencil size and has made exactly these HYPRE calls, in this order: the creation of
  the stencil with that size, one \<^verbatim>\<open>HYPRE_StructStencilSetElement\<close> per entry
  \<open>n = 0, 1, ...\<close> with element index \<open>n\<close> and the \<open>n\<close>-th entry of the vector as
  offset, the creation of the matrix over the solver's grid with that stencil, and
  \<^verbatim>\<open>HYPRE_StructMatrixSetSymmetric\<close> with 1 when \<open>is_symmetric\<close> is true and 0 when
  it is false.
\<close>

theorem setMatrixStencil_registers_stencil:
  fixes lib :: "'h hypre_lib" and w :: "('v, 'h) state"
  assumes np: "\<not> m_is_preconditioner (this w)"
    and len: "length stencil < 2 ^ 31"
    and wf: "\<forall>offset \<in> set stencil. length offset = NumSpaceDim"
  shows "\<exists>r. setMatrixStencil lib NumSpaceDim stencil is_symmetric w = Some r
     \<and> ((\<forall>tr. sint (return_code lib tr) \<le> 0) \<longrightarrow> fst r = None)
     \<and> (fst r = None \<longrightarrow>
          sint (m_stencil_size (this (snd r))) = int (length stencil)
        \<and> (\<forall>n < length stencil. sint (of_nat n :: HYPRE_Int) = int n)
        \<and> trace (snd r) = trace w
            @ [HYPRE_StructStencilCreate (of_nat NumSpaceDim) (m_stencil_size (this (snd r)))]
            @ map (\<lambda>n. HYPRE_StructStencilSetElement (m_stencil (this (snd r))) (of_nat n) (stencil ! n))
                  [0..<length stencil]
            @ [HYPRE_StructMatrixCreate (m_comm (this w)) (m_grid (this w)) (m_stencil (this (snd r))),
               HYPRE_StructMatrixSetSymmetric (m_A (this (snd r))) (if is_symmetric then 1 else 0)])"
proof -
  define size :: c_unsigned where "size = of_nat (length stencil)"
  define c1 :: "'h hypre_call" where "c1 = HYPRE_StructStencilCreate (of_nat NumSpaceDim) size"
  define w0 where "w0 = w\<lparr>this := (this w)\<lparr>m_stencil_size := size\<rparr>\<rparr>"
  define create :: "('v, 'h) stmt" where
    "create = checked_new lib (\<lambda>s. HYPRE_StructStencilCreate (of_nat NumSpaceDim) (m_stencil_size s))
                (\<lambda>h s. s\<lparr>m_stencil := h\<rparr>)"
  define finish :: "('v, 'h) stmt list" where
    "finish = [checked_new lib (\<lambda>s. HYPRE_StructMatrixCreate (m_comm s) (m_grid s) (m_stencil s))
                 (\<lambda>h s. s\<lparr>m_A := h\<rparr>),
               checked lib (\<lambda>s. HYPRE_StructMatrixSetSymmetric (m_A s) (if is_symmetric then 1 else 0))]"
  have unfold: "setMatrixStencil lib NumSpaceDim stencil is_symmetric w =
      (case create w0 of
         (Some e, w1) \<Rightarrow> Some (Some e, w1)
       | (None, w1) \<Rightarrow>
          (case stencil_loop lib NumSpaceDim stencil 0 w1 of
             None \<Rightarrow> None
           | Some (Some e, w2) \<Rightarrow> Some (Some e, w2)
           | Some (None, w2) \<Rightarrow> Some (run finish w2)))"
    unfolding setMatrixStencil_def create_def finish_def w0_def size_def
    using np by (simp add: run_assign_Cons run_single del: run.simps split del: if_split)
  have small: "sint (of_nat n :: HYPRE_Int) = int n" if "n < length stencil" for n
    by (rule sint_of_nat_small) (use that len in simp)
  have size: "sint size = int (length stencil)"
    unfolding size_def using len by (rule sint_of_nat_small)
  show ?thesis
  proof (cases "fst (create w0)")
    case (Some e)
    then obtain w1 where "create w0 = (Some e, w1)" by (cases "create w0") simp
    then have "setMatrixStencil lib NumSpaceDim stencil is_symmetric w = Some (Some e, w1)"
      by (simp add: unfold)
    moreover have "\<not> (\<forall>tr. sint (return_code lib tr) \<le> 0)"
    proof
      assume "\<forall>tr. sint (return_code lib tr) \<le> 0"
      then have "fst (create w0) = None"
        unfolding create_def by (intro always_ok_checked_new) simp
      with Some show False by simp
    qed
    ultimately show ?thesis by simp
  next
    case None
    then have rc: "sint (return_code lib (trace w0 @ [c1])) \<le> 0"
      by (simp add: create_def fst_checked_new c1_def w0_def)
    define h where "h = out_handle lib (trace w @ [c1])"
    define w1 where "w1 = w0\<lparr>trace := trace w @ [c1], this := (this w0)\<lparr>m_stencil := h\<rparr>\<rparr>"
    have created: "create w0 = (None, w1)"
      using rc by (simp add: create_def checked_new_ok w1_def h_def c1_def w0_def)
    have len32: "length stencil < 2 ^ 32" using len by simp
    have "unat (0 :: 32 word) \<le> length stencil" by simp
    from stencil_loop_result [OF len32 this, of lib NumSpaceDim w1]
    obtain r2 where all: "stencil_loop lib NumSpaceDim stencil 0 w1 = Some r2
       \<and> this (snd r2) = this w1 \<and> mem (snd r2) = mem w1 \<and> next_addr (snd r2) = next_addr w1
       \<and> (fst r2 = None \<longrightarrow>
            trace (snd r2) = trace w1 @
              map (\<lambda>i. HYPRE_StructStencilSetElement (m_stencil (this w1)) (of_nat i)
                         (map (\<lambda>d. stencil ! i ! d) [0..<NumSpaceDim]))
                  [unat (0 :: 32 word)..<length stencil])
       \<and> (\<forall>e. fst r2 = Some e \<longrightarrow> (\<exists>msg. e = runtime_error msg))
       \<and> (\<exists>r'. trace (snd r2) = trace w1 @ r')
       \<and> ((\<forall>tr. sint (return_code lib tr) \<le> 0) \<longrightarrow> fst r2 = None)"
      by (rule exE)
    note loop = all [THEN conjunct1]
    note loop_this = all [THEN conjunct2, THEN conjunct1]
    note loop_trace = all [THEN conjunct2, THEN conjunct2, THEN conjunct2, THEN conjunct2, THEN conjunct1]
    note loop_ok = all [THEN conjunct2, THEN conjunct2, THEN conjunct2, THEN conjunct2, THEN conjunct2,
        THEN conjunct2, THEN conjunct2]
    show ?thesis
    proof (cases "fst r2")
      case (Some e)
      then have "setMatrixStencil lib NumSpaceDim stencil is_symmetric w = Some r2"
        by (cases r2) (simp add: unfold created loop)
      then show ?thesis using Some loop_ok by simp
    next
      case None
      define w2 where "w2 = snd r2"
      have r2: "r2 = (None, w2)" using None by (cases r2) (simp add: w2_def)
      have result: "setMatrixStencil lib NumSpaceDim stencil is_symmetric w = Some (run finish w2)"
        by (simp add: unfold created loop r2)
      have this2: "this w2 = (this w)\<lparr>m_stencil_size := size, m_stencil := h\<rparr>"
        using loop_this by (simp add: w2_def w1_def w0_def)
      have trace2: "trace w2 = trace w @ [c1] @
          map (\<lambda>n. HYPRE_StructStencilSetElement h (of_nat n) (stencil ! n)) [0..<length stencil]"
        using loop_trace None stencil_elements_eq [OF wf, of h]
        by (simp add: w2_def w1_def w0_def)
      have ok: "fst (run finish w2) = None" if "\<forall>tr. sint (return_code lib tr) \<le> 0"
        using that by (simp add: finish_def run_ok_all fst_checked fst_checked_new del: run.simps)
      define hA where "hA = out_handle lib (trace w2 @
            [HYPRE_StructMatrixCreate (m_comm (this w)) (m_grid (this w)) h])"
      have post: "this (snd (run finish w2)) = (this w2)\<lparr>m_A := hA\<rparr>
          \<and> trace (snd (run finish w2)) = trace w2 @
            [HYPRE_StructMatrixCreate (m_comm (this w)) (m_grid (this w)) h,
             HYPRE_StructMatrixSetSymmetric hA (if is_symmetric then 1 else 0)]"
        if "fst (run finish w2) = None"
        using that unfolding finish_def
        by (simp add: run_steps this2 hA_def del: run.simps(2) split del: if_split)
      show ?thesis
        using result ok post size small
        by (auto simp: this2 trace2 c1_def)
    qed
  qed
qed

theorem setMatrixStencil_registers_stencil_witness:
  "\<not> m_is_preconditioner (this empty_state)
   \<and> (\<exists>r. setMatrixStencil hypre_ok 3 [[0, 0, 0], [1, 0, 0]] True empty_state = Some r
        \<and> fst r = None
        \<and> sint (m_stencil_size (this (snd r))) = 2
        \<and> trace (snd r) =
            [HYPRE_StructStencilCreate 3 (m_stencil_size (this (snd r))),
             HYPRE_StructStencilSetElement (m_stencil (this (snd r))) 0 [0, 0, 0],
             HYPRE_StructStencilSetElement (m_stencil (this (snd r))) 1 [1, 0, 0],
             HYPRE_StructMatrixCreate 0 0 (m_stencil (this (snd r))),
             HYPRE_StructMatrixSetSymmetric (m_A (this (snd r))) 1])"
proof -
  have np: "\<not> m_is_preconditioner (this empty_state)"
    by (simp add: empty_state_def raw_storage_def)
  have len: "length [[0, 0, 0], [1, 0, 0 :: c_int]] < 2 ^ 31" by simp
  have wf: "\<forall>offset \<in> set [[0, 0, 0], [1, 0, 0 :: c_int]]. length offset = 3" by simp
  have ok: "\<forall>tr. sint (return_code hypre_ok tr) \<le> 0" by (simp add: hypre_ok_def)
  have upt: "[0..<2] = [0, Suc 0]" by (simp add: upt_rec)
  from setMatrixStencil_registers_stencil [OF np len wf, of hypre_ok True] ok
  show ?thesis
    using np by (auto simp: upt empty_state_def raw_storage_def)
qed

section \<open>Properties of checkHypreError\<close>

text \<open>
  C9: \<open>checkHypreError\<close> throws a \<^verbatim>\<open>std::runtime_error\<close> exactly when the return code
  is strictly greater than zero; for every code less than or equal to zero, negative
  codes included, it returns normally, and then it leaves the state as it was.
\<close>

theorem checkHypreError_throws_iff_positive:
  "((\<exists>msg. fst (checkHypreError lib error w) = Some (runtime_error msg)) \<longleftrightarrow> 0 < sint error)
   \<and> (fst (checkHypreError lib error w) = None \<longleftrightarrow> sint error \<le> 0)
   \<and> (sint error \<le> 0 \<longrightarrow> checkHypreError lib error w = (None, w))"
  by (simp add: checkHypreError_def Let_def)

theorem checkHypreError_negative_code_witness:
  "sint (- 1 :: c_int) \<le> 0 \<and> checkHypreError hypre_failing (- 1) empty_state = (None, empty_state)"
  using checkHypreError_throws_iff_positive [of hypre_failing "- 1" empty_state] by simp

end
